theory Spec2Isabelle
  imports Complex_Main "HOL-Library.Word" "HOL-Library.Char_ord" "HOL-Library.List_Lexorder"
begin

section \<open>Data model\<close>

text \<open>
  The program is the single function \<open>main\<close> of
  \<open>samseg/cli/gems_compute_atlas_probs.py\<close>. Its arrays are numpy arrays:
  \<^item> \<open>segmentation_image\<close> is the \<open>float64\<close> array of a label image; its voxels hold
    integer label values, modelled as \<open>int\<close>;
  \<^item> \<open>segmentation_map\<close> is a \<open>uint16\<close> array of shape \<open>[s0, s1, s2, number_of_classes]\<close>:
    a volume whose voxels are lists of \<open>16 word\<close>, one entry per channel.
  A three-dimensional array is a list of lists of lists, indexed \<open>a ! i ! j ! k\<close>.
\<close>

type_synonym u16 = "16 word"
type_synonym u64 = "64 word"
type_synonym 'a volume = "'a list list list"

definition in_volume :: "'a volume \<Rightarrow> nat \<Rightarrow> nat \<Rightarrow> nat \<Rightarrow> bool" where
  "in_volume a i j k \<longleftrightarrow> i < length a \<and> j < length (a ! i) \<and> k < length (a ! i ! j)"

definition voxel :: "'a volume \<Rightarrow> nat \<Rightarrow> nat \<Rightarrow> nat \<Rightarrow> 'a" where
  "voxel a i j k = a ! i ! j ! k"

section \<open>Label Encoder (lines 177 to 188 of main)\<close>

text \<open>
  \<open>np.zeros([shape[0], shape[1], shape[2], number_of_classes], np.uint16)\<close>: one zero vector
  of \<open>number_of_classes\<close> channels for every voxel of the segmentation image.
\<close>

definition zeros_like :: "'a volume \<Rightarrow> nat \<Rightarrow> u16 list volume" where
  "zeros_like img number_of_classes = map (map (map (\<lambda>_. replicate number_of_classes 0))) img"

text \<open>
  The slice assignment \<open>segmentation_map[:, :, :, c] = f(source)\<close>, where the right-hand side
  is computed voxel by voxel from an array \<open>source\<close> of the same three leading dimensions.
  The channel index is always below \<open>number_of_classes\<close> in \<open>main\<close>.
\<close>

definition set_channel ::
  "nat \<Rightarrow> ('a \<Rightarrow> u16) \<Rightarrow> 'a volume \<Rightarrow> u16 list volume \<Rightarrow> u16 list volume" where
  "set_channel c f source seg = map2 (map2 (map2 (\<lambda>x chs. chs[c := f x]))) source seg"

text \<open>
  \<open>(segmentation_image == label) * 65535\<close>: a boolean times the Python integer 65535 is an
  integer array holding 0 or 65535, which the store converts to \<open>uint16\<close> without loss.
\<close>

definition label_mask :: "int \<Rightarrow> int \<Rightarrow> u16" where
  "label_mask label v = word_of_int (of_bool (v = label) * 65535)"

text \<open>
  \<open>65535 - np.sum(segmentation_map[:, :, :, 1:], axis=3)\<close>: numpy adds \<open>uint16\<close> values in
  an unsigned accumulator of the platform's word size (64 bits), the subtraction from the
  Python integer stays in that unsigned type and wraps around, and the store into the
  \<open>uint16\<close> slice keeps the low 16 bits.
\<close>

definition np_sum_u16 :: "u16 list \<Rightarrow> u64" where
  "np_sum_u16 chs = sum_list (map ucast chs)"

definition background :: "u16 list \<Rightarrow> u16" where
  "background chs = ucast ((65535 :: u64) - np_sum_u16 (drop 1 chs))"

text \<open>
  \<open>for label_number, label in enumerate(labels)\<close> (lines 181 to 183); the first argument is
  the running \<open>label_number\<close>.
\<close>

fun label_loop :: "nat \<Rightarrow> int list \<Rightarrow> int volume \<Rightarrow> u16 list volume \<Rightarrow> u16 list volume" where
  "label_loop label_number [] img seg = seg"
| "label_loop label_number (label # rest) img seg =
     label_loop (Suc label_number) rest img
       (set_channel (label_number + 1) (label_mask label) img seg)"

definition encode_multi :: "int list \<Rightarrow> int volume \<Rightarrow> u16 list volume" where
  "encode_multi labels img =
     (let seg = label_loop 0 labels img (zeros_like img (length labels + 1))
      in set_channel 0 background seg seg)"

text \<open>
  The binary branch (lines 187 and 188) multiplies the \<open>float64\<close> image itself and stores
  the product into a \<open>uint16\<close> slice. A double inside \<open>0..65535\<close> converts to its value;
  outside that range the conversion is left open by C and differs between platforms, so
  the result there is the parameter \<open>oor\<close>.
\<close>

definition f64_to_u16 :: "(int \<Rightarrow> u16) \<Rightarrow> int \<Rightarrow> u16" where
  "f64_to_u16 oor x = (if 0 \<le> x \<and> x \<le> 65535 then word_of_int x else oor x)"

definition encode_binary :: "(int \<Rightarrow> u16) \<Rightarrow> int volume \<Rightarrow> u16 list volume" where
  "encode_binary oor img =
     (let seg0 = set_channel 0 (\<lambda>v. f64_to_u16 oor ((1 - v) * 65535)) img (zeros_like img 2)
      in set_channel 1 (\<lambda>v. f64_to_u16 oor (v * 65535)) img seg0)"

text \<open>
  Lines 103 to 106 and 180 to 188 together: the number of classes and the branch taken
  depend on \<open>args.multi_structure\<close> only; the binary branch never reads \<open>labels\<close>.
\<close>

definition number_of_classes :: "bool \<Rightarrow> int list \<Rightarrow> nat" where
  "number_of_classes multi_structure labels = (if multi_structure then length labels + 1 else 2)"

definition label_encoder :: "bool \<Rightarrow> (int \<Rightarrow> u16) \<Rightarrow> int list \<Rightarrow> int volume \<Rightarrow> u16 list volume" where
  "label_encoder multi_structure oor labels img =
     (if multi_structure then encode_multi labels img else encode_binary oor img)"

text \<open>The sum of all channels of one voxel, in unbounded integer arithmetic.\<close>

definition channel_sum :: "u16 list \<Rightarrow> int" where
  "channel_sum chs = sum_list (map uint chs)"


text \<open>
  The encoder works voxel by voxel: the definitions below give the channel vector of one
  voxel, and the volume-level encoder is shown equal to their pointwise application.
\<close>

definition map3 :: "('a \<Rightarrow> 'b) \<Rightarrow> 'a volume \<Rightarrow> 'b volume" where
  "map3 f a = map (map (map f)) a"

fun voxel_loop :: "nat \<Rightarrow> int list \<Rightarrow> int \<Rightarrow> u16 list \<Rightarrow> u16 list" where
  "voxel_loop n [] v chs = chs"
| "voxel_loop n (label # rest) v chs = voxel_loop (Suc n) rest v (chs[n + 1 := label_mask label v])"

definition encode_voxel :: "int list \<Rightarrow> int \<Rightarrow> u16 list" where
  "encode_voxel labels v =
     (let chs = voxel_loop 0 labels v (replicate (length labels + 1) 0) in chs[0 := background chs])"


text \<open>
  The binary encoding in the words of the specification, for a foreground label: channel 0
  is full scale times one minus the indicator, channel 1 is full scale times the indicator.
\<close>

definition spec_binary_voxel :: "int \<Rightarrow> int \<Rightarrow> u16 list" where
  "spec_binary_voxel foreground v =
     [word_of_int (65535 * (1 - of_bool (v = foreground))), word_of_int (65535 * of_bool (v = foreground))]"

section \<open>Floating-point arrays\<close>

text \<open>
  A \<open>float64\<close> is modelled as a real number, or \<open>None\<close> for a value that is not a number
  (NaN, as numpy gives for \<open>0 / 0\<close>). Overflow is not modelled. The additions and
  divisions written out below are those of the reals; the mean of an array, whose
  rounding a claim depends on, takes numpy's rounded result as a parameter.
\<close>

type_synonym float64 = "real option"

definition fadd :: "float64 \<Rightarrow> float64 \<Rightarrow> float64" where
  "fadd a b = (case a of None \<Rightarrow> None | Some x \<Rightarrow> (case b of None \<Rightarrow> None | Some y \<Rightarrow> Some (x + y)))"

definition fdiv :: "float64 \<Rightarrow> float64 \<Rightarrow> float64" where
  "fdiv a b = (case a of None \<Rightarrow> None
     | Some x \<Rightarrow> (case b of None \<Rightarrow> None | Some y \<Rightarrow> if y = 0 then None else Some (x / y)))"

text \<open>
  \<open>np.mean\<close> along one axis. The mean of an empty axis is NaN (\<open>0 / 0\<close>), and so is a
  mean over an entry that is NaN. Otherwise numpy adds the entries and divides by their
  number in \<open>float64\<close>, rounding as it goes; the result of that, for a non-empty list of
  numbers, is the parameter \<open>float_mean\<close>.
\<close>

definition np_mean :: "(real list \<Rightarrow> real) \<Rightarrow> float64 list \<Rightarrow> float64" where
  "np_mean float_mean xs =
     (case those xs of
        None \<Rightarrow> None
      | Some rs \<Rightarrow> if rs = [] then None else Some (float_mean rs))"

section \<open>Deformation Applier (lines 159 to 175 of main)\<close>

type_synonym point = "float64 \<times> float64 \<times> float64"

datatype py_error = TypeError | ValueError | IndexError | OSError | UnboundLocalError | ShapeMismatch

definition padd :: "point \<Rightarrow> point \<Rightarrow> point" where
  "padd p q = (case p of (x, y, z) \<Rightarrow> (case q of (u, v, w) \<Rightarrow> (fadd x u, fadd y v, fadd z w)))"

text \<open>
  Modelled from the spec: \<open>ProbabilisticAtlas.getMesh\<close> is not part of the sources at hand;
  main calls it with the mesh collection, the subject's transform and the deformation
  of the level and reads \<open>.points\<close> of the result. By section 4.2 of the specification
  the positions are the reference positions plus the displacement of each node, and the
  call fails with \<open>ShapeMismatch\<close> when the number of displacements is not the number of
  nodes.
\<close>

definition getMesh :: "point list \<Rightarrow> point list \<Rightarrow> py_error + point list" where
  "getMesh reference displacement =
     (if length displacement \<noteq> length reference then Inl ShapeMismatch
      else Inr (map2 padd reference displacement))"

text \<open>
  Line 175, \<open>node_positions += [slc.start for slc in cropping]\<close>: \<open>cropping\<close> is a sequence
  of slices, given here by their \<open>start\<close> and \<open>stop\<close>. numpy broadcasts the list of starts
  over the rows of the \<open>[nodes, 3]\<close> array: three starts are added coordinate by coordinate
  to every row, a single start is added to all three coordinates, and any other number
  of starts raises \<open>ValueError\<close>.
\<close>

definition crop_offset :: "(int \<times> int) list \<Rightarrow> py_error + point" where
  "crop_offset cropping =
     (case map fst cropping of
        [sx, sy, sz] \<Rightarrow> Inr (Some (real_of_int sx), Some (real_of_int sy), Some (real_of_int sz))
      | [s] \<Rightarrow> Inr (Some (real_of_int s), Some (real_of_int s), Some (real_of_int s))
      | _ \<Rightarrow> Inl ValueError)"

definition add_cropping :: "(int \<times> int) list \<Rightarrow> point list \<Rightarrow> py_error + point list" where
  "add_cropping cropping node_positions =
     (case crop_offset cropping of
        Inl e \<Rightarrow> Inl e
      | Inr offset \<Rightarrow> Inr (map (\<lambda>p. padd p offset) node_positions))"

definition deformation_applier ::
  "point list \<Rightarrow> point list \<Rightarrow> (int \<times> int) list \<Rightarrow> py_error + point list" where
  "deformation_applier reference displacement cropping =
     (case getMesh reference displacement of
        Inl e \<Rightarrow> Inl e
      | Inr node_positions \<Rightarrow> add_cropping cropping node_positions)"

section \<open>EM Fitter (line 192 of main)\<close>

text \<open>
  Modelled from the spec: \<open>mesh.fit_alphas\<close> belongs to the compiled \<open>gems\<close> module, which is
  not part of the sources at hand. By section 4.4 of the specification every node starts
  from the uniform distribution over the classes, and one E-step followed by one M-step
  is repeated exactly \<open>EM_iterations\<close> times, with no convergence check. The E-step and
  M-step themselves depend on the mesh elements; one iteration is the parameter
  \<open>em_step\<close>. The loop counts the iterations it has performed; the specification does
  not say what a negative count does, and the loop runs no iteration then.
\<close>

fun em_loop :: "('a \<Rightarrow> 'a) \<Rightarrow> nat \<Rightarrow> 'a \<times> nat \<Rightarrow> 'a \<times> nat" where
  "em_loop em_step 0 (a, performed) = (a, performed)"
| "em_loop em_step (Suc n) (a, performed) = em_loop em_step n (em_step a, Suc performed)"

definition uniform_alphas :: "nat \<Rightarrow> nat \<Rightarrow> float64 list list" where
  "uniform_alphas number_of_nodes classes =
     replicate number_of_nodes (replicate classes (fdiv (Some 1) (Some (real classes))))"

definition fit_alphas ::
  "(float64 list list \<Rightarrow> float64 list list) \<Rightarrow> nat \<Rightarrow> nat \<Rightarrow> int \<Rightarrow> float64 list list \<times> nat" where
  "fit_alphas em_step number_of_nodes classes iterations =
     em_loop em_step (nat iterations) (uniform_alphas number_of_nodes classes, 0)"

section \<open>Command line (parseArguments)\<close>

text \<open>
  The namespace returned by \<open>parseArguments\<close>. An option without a default that is not
  given on the command line is \<open>None\<close>.
\<close>

record args =
  subjects_dir :: string
  mesh_collections :: "string list"
  out_dir :: string
  segmentations_dir :: "string option"
  gt_from_FS :: bool
  segmentation_name :: string
  multi_structure :: bool
  labels :: "int list option"
  from_samseg :: bool
  EM_iterations :: int
  show_figs :: bool
  save_figs :: bool
  save_average_figs :: bool
  subjects_file :: "string option"
  labels_file :: "string option"
  samseg_subdir :: string

text \<open>
  The namespace when only the three required options are given: every other option
  takes the default of its \<open>add_argument\<close> line (lines 27 to 42).
\<close>

definition default_args :: "string \<Rightarrow> string list \<Rightarrow> string \<Rightarrow> args" where
  "default_args sd mc od =
     \<lparr>subjects_dir = sd, mesh_collections = mc, out_dir = od, segmentations_dir = None,
      gt_from_FS = False, segmentation_name = ''aseg.mgz'', multi_structure = False,
      labels = None, from_samseg = False, EM_iterations = 10, show_figs = False,
      save_figs = False, save_average_figs = False, subjects_file = None,
      labels_file = None, samseg_subdir = ''samseg''\<rparr>"

section \<open>Collaborators of main\<close>

text \<open>
  A mesh as main uses it: the node positions and the alphas, one row per node and one
  column per class. The number of nodes \<open>point_count\<close> is the number of positions.
\<close>

record kvl_mesh =
  points :: "point list"
  alphas :: "float64 list list"

text \<open>
  What main reads of a subject's \<open>history.p\<close>: the deformation of every resolution level
  (\<open>history['historyWithinEachMultiResolutionLevel'][level]['deformation']\<close>) and the
  cropping slices. The transform and the stiffness \<open>K\<close> are only handed on to \<open>getMesh\<close>.
\<close>

record history =
  deformation :: "point list list"
  cropping :: "(int \<times> int) list"

text \<open>
  The file system, the Python built-ins and the library calls of main, as functions. A
  file that cannot be read is \<open>None\<close>; files are named by their path components, which the
  source joins with \<open>os.path.join\<close>. \<open>em_step\<close> is one EM iteration of \<open>gems\<close> on the given
  node positions and target volume, \<open>rasterize\<close> is \<open>mesh.rasterize\<close>, \<open>out_of_range\<close>
  is the platform's conversion of an out-of-range double to \<open>uint16\<close>, and \<open>float_mean\<close>
  is numpy's rounded mean of a non-empty list of numbers.
\<close>

record collaborators =
  listdir_dirs :: "string \<Rightarrow> string list option"
  read_lines :: "string \<Rightarrow> string list option"
  py_strip :: "string \<Rightarrow> string"
  py_split :: "string \<Rightarrow> string list"
  py_int :: "string \<Rightarrow> int option"
  reference_mesh :: "string \<Rightarrow> kvl_mesh option"
  load_segmentation :: "string list \<Rightarrow> int volume option"
  load_history :: "string list \<Rightarrow> history option"
  em_step :: "point list \<Rightarrow> u16 list volume \<Rightarrow> float64 list list \<Rightarrow> float64 list list"
  rasterize :: "kvl_mesh \<Rightarrow> nat \<times> nat \<times> nat \<Rightarrow> float64 list volume"
  out_of_range :: "int \<Rightarrow> u16"
  float_mean :: "real list \<Rightarrow> real"

text \<open>
  What main leaves behind, in order: the lines it writes to its log and the files it
  writes to the output directory. Levels and subject numbers are counted from 0 here;
  the file names of the source show them plus one. Writes are taken to succeed.
\<close>

datatype event =
    LogHeader
  | WriteSubjects "string list"
  | OpenLabelsFile
  | WriteLabel int
  | SubjectStart nat nat string
  | ShowFigure "float64 list volume"
  | SaveFigure nat nat "float64 list volume"
  | SaveAverageFigure nat "float64 list volume"
  | SaveStatistics nat "float64 list list list"
  | LogDone

section \<open>main, lines 63 to 106: subjects and labels\<close>

text \<open>Lines 63 to 72: the subjects, from the file or from the directory, sorted.\<close>

definition subject_list :: "collaborators \<Rightarrow> args \<Rightarrow> py_error + string list" where
  "subject_list c a =
     (case subjects_file a of
        Some f \<Rightarrow>
          (case read_lines c f of
             None \<Rightarrow> Inl OSError
           | Some lines \<Rightarrow> Inr (sort (map (py_strip c) lines)))
      | None \<Rightarrow>
          (case listdir_dirs c (subjects_dir a) of
             None \<Rightarrow> Inl OSError
           | Some dirs \<Rightarrow> Inr (sort dirs)))"

text \<open>
  Lines 85 to 93: the labels are \<open>args.labels\<close> unless a labels file is given; every
  whitespace-separated item of every line of that file is converted with \<open>int\<close>, which
  raises \<open>ValueError\<close> on an item that is no integer.
\<close>

definition read_labels :: "collaborators \<Rightarrow> args \<Rightarrow> py_error + int list option" where
  "read_labels c a =
     (case labels_file a of
        None \<Rightarrow> Inr (labels a)
      | Some f \<Rightarrow>
          (case read_lines c f of
             None \<Rightarrow> Inl OSError
           | Some lines \<Rightarrow>
               (case those (map (py_int c) (concat (map (py_split c) lines))) of
                  None \<Rightarrow> Inl ValueError
                | Some items \<Rightarrow> Inr (Some items))))"

text \<open>
  Lines 95 to 98: \<open>labels.txt\<close> is opened for writing, then \<open>for label in labels\<close> writes one
  line per label. Iterating over \<open>None\<close> raises \<open>TypeError\<close>.
\<close>

definition write_labels :: "int list option \<Rightarrow> event list \<times> (py_error + int list)" where
  "write_labels labels_or_none =
     (case labels_or_none of
        None \<Rightarrow> ([OpenLabelsFile], Inl TypeError)
      | Some lbls \<Rightarrow> (OpenLabelsFile # map WriteLabel lbls, Inr lbls))"

section \<open>main, lines 131 to 208: one subject\<close>

definition segmentation_path :: "args \<Rightarrow> string \<Rightarrow> string \<Rightarrow> string list" where
  "segmentation_path a sd subject_dir =
     (if gt_from_FS a then [sd, subject_dir, ''mri'', segmentation_name a]
      else [sd, subject_dir, segmentation_name a])"

definition history_path :: "args \<Rightarrow> string \<Rightarrow> string list" where
  "history_path a subject_dir =
     (if from_samseg a then [subjects_dir a, subject_dir, ''mri'', samseg_subdir a, ''history.p'']
      else [subjects_dir a, subject_dir, ''history.p''])"

text \<open>
  Lines 144 to 152. \<open>import nibabel as nib\<close> stands inside main, under
  \<open>if args.save_figs\<close> (lines 60 and 61), so \<open>nib\<close> is a local variable of main that is
  bound only when that flag is set: without it \<open>nib.load\<close> raises \<open>UnboundLocalError\<close>.
  \<open>os.path.join\<close> raises \<open>TypeError\<close> when \<open>args.segmentations_dir\<close> is \<open>None\<close>. With
  \<open>gt_from_FS\<close> the path is joined on a line of its own before \<open>nib.load\<close>; without it
  the path is an argument of the call, and Python looks up \<open>nib\<close> first.
\<close>

definition load_segmentation_image :: "collaborators \<Rightarrow> args \<Rightarrow> string \<Rightarrow> py_error + int volume" where
  "load_segmentation_image c a subject_dir =
     (if gt_from_FS a then
        (case segmentations_dir a of
           None \<Rightarrow> Inl TypeError
         | Some sd \<Rightarrow>
             if \<not> save_figs a then Inl UnboundLocalError
             else (case load_segmentation c (segmentation_path a sd subject_dir) of
                     None \<Rightarrow> Inl OSError
                   | Some segmentation_image \<Rightarrow> Inr segmentation_image))
      else
        (if \<not> save_figs a then Inl UnboundLocalError
         else (case segmentations_dir a of
                 None \<Rightarrow> Inl TypeError
               | Some sd \<Rightarrow>
                   (case load_segmentation c (segmentation_path a sd subject_dir) of
                      None \<Rightarrow> Inl OSError
                    | Some segmentation_image \<Rightarrow> Inr segmentation_image))))"

text \<open>
  Lines 144 to 192. A level beyond the history's levels raises \<open>IndexError\<close>. The result
  is the segmentation image and the mesh with the subject's node positions and fitted
  alphas.
\<close>

definition fit_subject ::
  "collaborators \<Rightarrow> args \<Rightarrow> int list \<Rightarrow> nat \<Rightarrow> kvl_mesh \<Rightarrow> string \<Rightarrow> py_error + int volume \<times> kvl_mesh" where
  "fit_subject c a lbls level ref subject_dir =
     (case load_segmentation_image c a subject_dir of
        Inl e \<Rightarrow> Inl e
      | Inr segmentation_image \<Rightarrow>
     (case load_history c (history_path a subject_dir) of
        None \<Rightarrow> Inl OSError
      | Some h \<Rightarrow>
     if length (deformation h) \<le> level then Inl IndexError
     else
     (case deformation_applier (points ref) (deformation h ! level) (cropping h) of
        Inl e \<Rightarrow> Inl e
      | Inr node_positions \<Rightarrow>
          (let segmentation_map =
                 label_encoder (multi_structure a) (out_of_range c) lbls segmentation_image;
               fitted = fst (fit_alphas (em_step c node_positions segmentation_map)
                          (length node_positions) (number_of_classes (multi_structure a) lbls)
                          (EM_iterations a))
           in Inr (segmentation_image, \<lparr>points = node_positions, alphas = fitted\<rparr>)))))"

text \<open>\<open>segmentation_image.shape\<close>, for an array with at least one entry along each axis.\<close>

definition shape3 :: "'a volume \<Rightarrow> nat \<times> nat \<times> nat" where
  "shape3 a =
     (length a,
      (case a of [] \<Rightarrow> 0 | plane # _ \<Rightarrow> length plane),
      (case a of [] \<Rightarrow> 0 | plane # _ \<Rightarrow> (case plane of [] \<Rightarrow> 0 | row # _ \<Rightarrow> length row)))"

text \<open>
  \<open>mesh.rasterize(segmentation_image.shape) / 65535\<close> followed by \<open>[:, :, :, 1:]\<close>: the
  rasterized prior without its background channel.
\<close>

definition rasterized_prior :: "collaborators \<Rightarrow> kvl_mesh \<Rightarrow> int volume \<Rightarrow> float64 list volume" where
  "rasterized_prior c m segmentation_image =
     map3 (\<lambda>chs. drop 1 (map (\<lambda>x. fdiv x (Some 65535)) chs))
       (rasterize c m (shape3 segmentation_image))"

text \<open>Lines 194 to 205: the figures of one subject.\<close>

definition subject_figures ::
  "collaborators \<Rightarrow> args \<Rightarrow> nat \<Rightarrow> nat \<Rightarrow> kvl_mesh \<Rightarrow> int volume \<Rightarrow> event list" where
  "subject_figures c a level subject_number m segmentation_image =
     (if show_figs a then [ShowFigure (rasterized_prior c m segmentation_image)] else []) @
     (if save_figs a then [SaveFigure level subject_number (rasterized_prior c m segmentation_image)]
      else [])"

section \<open>Atlas Aggregator (lines 113 to 227 of main)\<close>

text \<open>
  The state of one resolution level: the accumulator \<open>label_statistics_in_mesh_nodes\<close>,
  indexed \<open>[node][class][subject]\<close>, the variable \<open>mesh\<close>, and the variable
  \<open>segmentation_image\<close>, which is unbound (\<open>None\<close>) until a subject has been loaded.
\<close>

record level_state =
  statistics :: "float64 list list list"
  mesh :: kvl_mesh
  segmentation_image :: "int volume option"

text \<open>Line 129: \<open>np.zeros([number_of_nodes, number_of_classes, number_of_subjects])\<close>.\<close>

definition np_zeros3 :: "nat \<Rightarrow> nat \<Rightarrow> nat \<Rightarrow> float64 list list list" where
  "np_zeros3 n0 n1 n2 = replicate n0 (replicate n1 (replicate n2 (Some 0)))"

text \<open>
  Line 208: \<open>label_statistics_in_mesh_nodes[:, :, subject_number] = mesh.alphas.copy()\<close>.
  The alphas of \<open>gems\<close> have one row per node and one column per class; an array of
  another shape raises \<open>ValueError\<close> (numpy's broadcasting of smaller arrays is not
  modelled). The subject number is below the number of subjects in main.
\<close>

definition store_subject ::
  "nat \<Rightarrow> float64 list list \<Rightarrow> float64 list list list \<Rightarrow> py_error + float64 list list list" where
  "store_subject subject_number subject_alphas stats =
     (if list_all2 (\<lambda>row cells. length row = length cells) subject_alphas stats
      then Inr (map2 (map2 (\<lambda>x cell. cell[subject_number := x])) subject_alphas stats)
      else Inl ValueError)"

text \<open>
  Lines 131 to 208, \<open>for subject_number, subject_dir in enumerate(subject_list)\<close>. An
  exception ends the run; the events up to it remain.
\<close>

fun subject_loop ::
  "collaborators \<Rightarrow> args \<Rightarrow> int list \<Rightarrow> nat \<Rightarrow> kvl_mesh \<Rightarrow> (nat \<times> string) list \<Rightarrow> level_state
     \<Rightarrow> event list \<times> (py_error + level_state)" where
  "subject_loop c a lbls level ref [] st = ([], Inr st)"
| "subject_loop c a lbls level ref ((subject_number, subject_dir) # rest) st =
     (case fit_subject c a lbls level ref subject_dir of
        Inl e \<Rightarrow> ([SubjectStart level subject_number subject_dir], Inl e)
      | Inr (img, m) \<Rightarrow>
          (case store_subject subject_number (alphas m) (statistics st) of
             Inl e \<Rightarrow>
               (SubjectStart level subject_number subject_dir
                  # subject_figures c a level subject_number m img, Inl e)
           | Inr stats \<Rightarrow>
               (case subject_loop c a lbls level ref rest
                       \<lparr>statistics = stats, mesh = m, segmentation_image = Some img\<rparr> of
                  (evs, r) \<Rightarrow>
                    (SubjectStart level subject_number subject_dir
                       # subject_figures c a level subject_number m img @ evs, r))))"

text \<open>\<open>np.mean(label_statistics_in_mesh_nodes, axis=2)\<close>: the mean over the subject axis.\<close>

definition np_mean_axis2 :: "(real list \<Rightarrow> real) \<Rightarrow> float64 list list list \<Rightarrow> float64 list list" where
  "np_mean_axis2 rounded_mean stats = map (map (np_mean rounded_mean)) stats"

text \<open>
  Lines 212 and 213, and again 220 and 221: the mean is assigned to \<open>mesh.alphas\<close> and the
  mesh is rasterized on the shape of \<open>segmentation_image\<close>, which raises
  \<open>UnboundLocalError\<close> when no subject has bound that variable.
\<close>

definition average_prior ::
  "collaborators \<Rightarrow> level_state \<Rightarrow> py_error + level_state \<times> float64 list volume" where
  "average_prior c st =
     (let m = (mesh st)\<lparr>alphas := np_mean_axis2 (float_mean c) (statistics st)\<rparr> in
      case segmentation_image st of
        None \<Rightarrow> Inl UnboundLocalError
      | Some img \<Rightarrow> Inr (st\<lparr>mesh := m\<rparr>, rasterized_prior c m img))"

text \<open>
  Lines 210 to 224: the figures of the average, under their two flags. Saving the figure
  calls \<open>nib.Nifti1Image\<close> (line 223), and \<open>nib\<close> is bound only under \<open>save_figs\<close>.
\<close>

definition average_figures ::
  "collaborators \<Rightarrow> args \<Rightarrow> nat \<Rightarrow> level_state \<Rightarrow> event list \<times> (py_error + level_state)" where
  "average_figures c a level st =
     (case (if show_figs a
            then (case average_prior c st of
                    Inl e \<Rightarrow> ([], Inl e)
                  | Inr (st1, prior) \<Rightarrow> ([ShowFigure prior], Inr st1))
            else ([], Inr st)) of
        (evs, Inl e) \<Rightarrow> (evs, Inl e)
      | (evs, Inr st1) \<Rightarrow>
          (if save_average_figs a
           then (case average_prior c st1 of
                   Inl e \<Rightarrow> (evs, Inl e)
                 | Inr (st2, prior) \<Rightarrow>
                     if save_figs a then (evs @ [SaveAverageFigure level prior], Inr st2)
                     else (evs, Inl UnboundLocalError))
           else (evs, Inr st1)))"

text \<open>
  One pass of the loop over the mesh collections (lines 113 to 227): read the reference
  mesh, run the subjects, make the figures of the average, and save the accumulator
  with \<open>np.save\<close>. The binding of \<open>segmentation_image\<close> is that of the previous levels.
\<close>

definition run_level ::
  "collaborators \<Rightarrow> args \<Rightarrow> int list \<Rightarrow> string list \<Rightarrow> int volume option \<Rightarrow> nat \<times> string
     \<Rightarrow> event list \<times> (py_error + level_state)" where
  "run_level c a lbls subjects bound_image lf =
     (case lf of (level, mesh_collection_file) \<Rightarrow>
     (case reference_mesh c mesh_collection_file of
        None \<Rightarrow> ([], Inl OSError)
      | Some ref \<Rightarrow>
          (let st0 = \<lparr>statistics = np_zeros3 (length (points ref))
                                      (number_of_classes (multi_structure a) lbls)
                                      (length subjects),
                      mesh = ref, segmentation_image = bound_image\<rparr>
           in case subject_loop c a lbls level ref (enumerate 0 subjects) st0 of
                (evs, Inl e) \<Rightarrow> (evs, Inl e)
              | (evs, Inr st) \<Rightarrow>
                  (case average_figures c a level st of
                     (evs2, Inl e) \<Rightarrow> (evs @ evs2, Inl e)
                   | (evs2, Inr st2) \<Rightarrow>
                       (evs @ evs2 @ [SaveStatistics level (statistics st2)], Inr st2)))))"

text \<open>Line 113, \<open>for level, mesh_collection_file in enumerate(args.mesh_collections)\<close>.\<close>

fun level_loop ::
  "collaborators \<Rightarrow> args \<Rightarrow> int list \<Rightarrow> string list \<Rightarrow> (nat \<times> string) list \<Rightarrow> int volume option
     \<Rightarrow> event list \<times> (py_error + unit)" where
  "level_loop c a lbls subjects [] bound_image = ([], Inr ())"
| "level_loop c a lbls subjects (lf # rest) bound_image =
     (case run_level c a lbls subjects bound_image lf of
        (evs, Inl e) \<Rightarrow> (evs, Inl e)
      | (evs, Inr st) \<Rightarrow>
          (case level_loop c a lbls subjects rest (segmentation_image st) of
             (evs2, r) \<Rightarrow> (evs @ evs2, r)))"

section \<open>main\<close>

text \<open>
  The whole of main: the subjects, the log header and \<open>subjects.txt\<close>, the labels and
  \<open>labels.txt\<close>, then the levels. The result is the events in order and either the
  exception that ended the run or normal completion. Creating the output directory,
  initialising the visualizer and printing to the terminal (lines 52 to 61, 100, 101)
  leave no event.
\<close>

definition main :: "collaborators \<Rightarrow> args \<Rightarrow> event list \<times> (py_error + unit)" where
  "main c a =
     (case subject_list c a of
        Inl e \<Rightarrow> ([], Inl e)
      | Inr subjects \<Rightarrow>
          (case read_labels c a of
             Inl e \<Rightarrow> ([LogHeader, WriteSubjects subjects], Inl e)
           | Inr labels_or_none \<Rightarrow>
               (case write_labels labels_or_none of
                  (evs, Inl e) \<Rightarrow> ([LogHeader, WriteSubjects subjects] @ evs, Inl e)
                | (evs, Inr lbls) \<Rightarrow>
                    (case level_loop c a lbls subjects (enumerate 0 (mesh_collections a)) None of
                       (evs2, Inl e) \<Rightarrow> ([LogHeader, WriteSubjects subjects] @ evs @ evs2, Inl e)
                     | (evs2, Inr u) \<Rightarrow>
                         ([LogHeader, WriteSubjects subjects] @ evs @ evs2 @ [LogDone], Inr ())))))"

text \<open>
  The Atlas Aggregator in the words of the specification: the atlas of a level is the
  arithmetic mean of the accumulator over the subject axis.
\<close>

definition arithmetic_mean :: "real list \<Rightarrow> real" where
  "arithmetic_mean rs = sum_list rs / real (length rs)"

definition spec_level_atlas :: "float64 list list list \<Rightarrow> float64 list list" where
  "spec_level_atlas stats = map (map (np_mean arithmetic_mean)) stats"

text \<open>
  A row of doubles adds up to 1 within a tolerance: no entry is NaN, and the sum of the
  entries, as real numbers, is at most the tolerance away from 1.
\<close>

definition sums_to_one_within :: "real \<Rightarrow> float64 list \<Rightarrow> bool" where
  "sums_to_one_within tolerance row =
     (case those row of None \<Rightarrow> False | Some rs \<Rightarrow> \<bar>sum_list rs - 1\<bar> \<le> tolerance)"

section \<open>A small run\<close>

text \<open>
  A run used to evaluate main on concrete data: two subjects \<open>s1\<close> and \<open>s2\<close> whose
  segmentation images are single voxels holding 0 and 1, a mesh of one node, a
  deformation that moves nothing, and an EM iteration that sets the alphas of every node
  to the target's channels at voxel (0,0,0) divided by full scale. All alphas of the run
  are 0 or 1, and their means are formed without rounding. The run has \<open>--save-figs\<close>
  set, without which no subject can be loaded.
\<close>

definition example_mesh :: kvl_mesh where
  "example_mesh = \<lparr>points = [(Some 0, Some 0, Some 0)], alphas = [[Some 1, Some 0]]\<rparr>"

definition example_history :: history where
  "example_history =
     \<lparr>deformation = [[(Some 0, Some 0, Some 0)]], cropping = [(0, 1), (0, 1), (0, 1)]\<rparr>"

definition example_em_step ::
  "point list \<Rightarrow> u16 list volume \<Rightarrow> float64 list list \<Rightarrow> float64 list list" where
  "example_em_step node_positions target a =
     map (\<lambda>row. map (\<lambda>w. Some (real_of_int (uint w) / 65535)) (voxel target 0 0 0)) a"

definition example_collaborators :: collaborators where
  "example_collaborators =
     \<lparr>listdir_dirs = (\<lambda>d. Some [''s2'', ''s1'']),
      read_lines = (\<lambda>f. None),
      py_strip = (\<lambda>s. s),
      py_split = (\<lambda>s. [s]),
      py_int = (\<lambda>s. None),
      reference_mesh = (\<lambda>f. Some example_mesh),
      load_segmentation = (\<lambda>p. Some (if ''s1'' \<in> set p then [[[0]]] else [[[1]]])),
      load_history = (\<lambda>p. Some example_history),
      em_step = example_em_step,
      rasterize = (\<lambda>m shape. []),
      out_of_range = word_of_int,
      float_mean = arithmetic_mean\<rparr>"

definition example_args :: args where
  "example_args = (default_args ''subjects'' [''atlas_level1.txt.gz''] ''out'')
     \<lparr>segmentations_dir := Some ''segs'', labels := Some [1], EM_iterations := 2,
      save_figs := True\<rparr>"

section \<open>Shapes\<close>

text \<open>The shape of a three-dimensional array: the lengths of its innermost lists.\<close>

definition shape_of :: "'a list list list \<Rightarrow> nat list list" where
  "shape_of t = map (map length) t"

section \<open>Properties of the Label Encoder\<close>

subsection \<open>The encoder is a pointwise map\<close>

lemma map2_map_same: "map2 h xs (map g xs) = map (\<lambda>x. h x (g x)) xs"
  by (induction xs) auto

lemma map2_map_both: "map2 h (map f xs) (map g xs) = map (\<lambda>x. h (f x) (g x)) xs"
  by (induction xs) auto

lemma zeros_like_map3: "zeros_like img n = map3 (\<lambda>_. replicate n 0) img"
  by (simp add: zeros_like_def map3_def)

lemma set_channel_map3:
  "set_channel c f img (map3 g img) = map3 (\<lambda>v. (g v)[c := f v]) img"
  unfolding set_channel_def map3_def
  by (simp add: map2_map_same)

lemma set_channel_self_map3:
  "set_channel c f (map3 g img) (map3 g img) = map3 (\<lambda>v. (g v)[c := f (g v)]) img"
  unfolding set_channel_def map3_def
  by (simp add: map2_map_both)

lemma voxel_map3: "in_volume a i j k \<Longrightarrow> voxel (map3 f a) i j k = f (voxel a i j k)"
  by (simp add: in_volume_def voxel_def map3_def)

lemma in_volume_map3: "in_volume (map3 f a) i j k = in_volume a i j k"
  by (auto simp add: in_volume_def map3_def)

lemma label_loop_map3:
  "label_loop n lbls img (map3 g img) = map3 (\<lambda>v. voxel_loop n lbls v (g v)) img"
  by (induction lbls arbitrary: n g) (simp_all add: set_channel_map3)

lemma encode_multi_map3: "encode_multi lbls img = map3 (encode_voxel lbls) img"
  by (simp add: encode_multi_def zeros_like_map3 label_loop_map3 set_channel_self_map3 encode_voxel_def[abs_def] Let_def)

lemma encode_binary_map3:
  "encode_binary oor img = map3 (\<lambda>v. [f64_to_u16 oor ((1 - v) * 65535), f64_to_u16 oor (v * 65535)]) img"
  by (simp add: encode_binary_def zeros_like_map3 set_channel_map3 Let_def numeral_2_eq_2)

lemma length_voxel_loop: "length (voxel_loop n lbls v chs) = length chs"
  by (induction lbls arbitrary: n chs) simp_all

lemma voxel_loop_low: "c \<le> n \<Longrightarrow> voxel_loop n lbls v chs ! c = chs ! c"
  by (induction lbls arbitrary: n chs) simp_all

lemma voxel_loop_nth:
  "n + length lbls < length chs \<Longrightarrow> m < length lbls \<Longrightarrow>
   voxel_loop n lbls v chs ! Suc (n + m) = label_mask (lbls ! m) v"
proof (induction lbls arbitrary: n chs m)
  case Nil
  then show ?case by simp
next
  case (Cons l ls)
  show ?case
  proof (cases m)
    case 0
    then show ?thesis using Cons.prems by (simp add: voxel_loop_low)
  next
    case (Suc m')
    then show ?thesis using Cons.prems Cons.IH[of "Suc n" "chs[n + 1 := label_mask l v]" m'] by simp
  qed
qed

lemma voxel_loop_drop:
  "length chs = n + 1 + length lbls \<Longrightarrow>
   drop (n + 1) (voxel_loop n lbls v chs) = map (\<lambda>l. label_mask l v) lbls"
  by (rule nth_equalityI) (simp_all add: length_voxel_loop voxel_loop_nth)

lemma uint_label_mask: "uint (label_mask l v) = (if v = l then 65535 else 0)"
  by (simp add: label_mask_def)

lemma uint_np_sum_u16: "uint (np_sum_u16 chs) = sum_list (map uint chs) mod 2 ^ 64"
proof (induction chs)
  case Nil
  then show ?case by (simp add: np_sum_u16_def)
next
  case (Cons c cs)
  have "uint (np_sum_u16 (c # cs)) = (uint (ucast c :: u64) + uint (np_sum_u16 cs)) mod 2 ^ 64"
    by (simp add: np_sum_u16_def uint_word_ariths)
  also have "uint (ucast c :: u64) = uint c"
    by (simp add: uint_up_ucast is_up)
  finally show ?case using Cons.IH by (simp add: mod_add_right_eq)
qed

lemma uint_background:
  "uint (background chs) = (65535 - sum_list (map uint (drop 1 chs))) mod 65536"
proof -
  have "uint (background chs) = uint ((65535 :: u64) - np_sum_u16 (drop 1 chs)) mod 2 ^ 16"
    unfolding background_def
    by (simp add: unsigned_ucast_eq take_bit_eq_mod)
  also have "uint ((65535 :: u64) - np_sum_u16 (drop 1 chs))
      = (65535 - sum_list (map uint (drop 1 chs)) mod 2 ^ 64) mod 2 ^ 64"
    by (simp add: uint_word_ariths uint_np_sum_u16)
  also have "\<dots> mod 2 ^ 16 = (65535 - sum_list (map uint (drop 1 chs))) mod 2 ^ 16"
  proof -
    have d: "(2 :: int) ^ 16 dvd 2 ^ 64" by (simp add: le_imp_power_dvd)
    have "(65535 - sum_list (map uint (drop 1 chs)) mod 2 ^ 64) mod 2 ^ 64 mod 2 ^ 16
        = (65535 - sum_list (map uint (drop 1 chs)) mod 2 ^ 64) mod 2 ^ 16"
      using d by (rule mod_mod_cancel)
    also have "\<dots> = (65535 mod 2 ^ 16 - sum_list (map uint (drop 1 chs)) mod 2 ^ 64 mod 2 ^ 16) mod 2 ^ 16"
      by (simp only: mod_diff_eq)
    also have "sum_list (map uint (drop 1 chs)) mod 2 ^ 64 mod 2 ^ 16 = sum_list (map uint (drop 1 chs)) mod 2 ^ 16"
      using d by (rule mod_mod_cancel)
    also have "(65535 mod 2 ^ 16 - sum_list (map uint (drop 1 chs)) mod 2 ^ 16) mod 2 ^ 16
       = (65535 - sum_list (map uint (drop 1 chs))) mod 2 ^ 16"
      by (simp only: mod_diff_eq)
    finally show ?thesis .
  qed
  finally show ?thesis by simp
qed

lemma length_encode_voxel: "length (encode_voxel lbls v) = length lbls + 1"
  by (simp add: encode_voxel_def Let_def length_voxel_loop)

lemma encode_voxel_Suc:
  "m < length lbls \<Longrightarrow> encode_voxel lbls v ! Suc m = label_mask (lbls ! m) v"
  using voxel_loop_nth[of 0 lbls "replicate (length lbls + 1) 0" m v]
  by (simp add: encode_voxel_def Let_def)

lemma drop_encode_voxel:
  "drop (Suc 0) (encode_voxel lbls v) = map (\<lambda>l. label_mask l v) lbls"
  using voxel_loop_drop[of "replicate (length lbls + 1) 0" 0 lbls v]
  by (simp add: encode_voxel_def Let_def drop_update_cancel)

lemma sum_masks: "sum_list (map (\<lambda>l. uint (label_mask l v)) lbls) = 65535 * int (count_list lbls v)"
  by (induction lbls) (simp_all add: uint_label_mask)

lemma encode_voxel_0:
  "uint (encode_voxel lbls v ! 0) = (65535 - 65535 * int (count_list lbls v)) mod 65536"
proof -
  let ?chs = "voxel_loop 0 lbls v (replicate (length lbls + 1) 0)"
  have d: "drop 1 ?chs = map (\<lambda>l. label_mask l v) lbls"
    using voxel_loop_drop[of "replicate (length lbls + 1) 0" 0 lbls v] by simp
  have "encode_voxel lbls v ! 0 = background ?chs"
    by (simp add: encode_voxel_def Let_def length_voxel_loop)
  then show ?thesis
    by (simp only: uint_background d map_map comp_def sum_masks)
qed

lemma sum_tail_channels:
  "(\<Sum>c = 1..length lbls. uint (encode_voxel lbls v ! c)) = 65535 * int (count_list lbls v)"
proof -
  have "sum_list (map uint (drop 1 (encode_voxel lbls v))) = 65535 * int (count_list lbls v)"
    by (simp add: drop_encode_voxel comp_def sum_masks)
  moreover have "sum_list (map uint (drop 1 (encode_voxel lbls v)))
       = (\<Sum>m = 0..<length lbls. uint (encode_voxel lbls v ! Suc m))"
    by (simp add: sum_list_sum_nth length_encode_voxel atLeast0LessThan)
  moreover have "(\<Sum>c = 1..length lbls. uint (encode_voxel lbls v ! c))
       = (\<Sum>c = Suc 0..<Suc (length lbls). uint (encode_voxel lbls v ! c))"
    by (simp add: atLeastLessThanSuc_atLeastAtMost)
  moreover have "(\<Sum>c = Suc 0..<Suc (length lbls). uint (encode_voxel lbls v ! c))
       = (\<Sum>m = 0..<length lbls. uint (encode_voxel lbls v ! Suc m))"
    by (rule sum.shift_bounds_Suc_ivl)
  ultimately show ?thesis by simp
qed

lemma channel_sum_encode_voxel:
  "channel_sum (encode_voxel lbls v)
     = (65535 - 65535 * int (count_list lbls v)) mod 65536 + 65535 * int (count_list lbls v)"
proof -
  have "encode_voxel lbls v = (encode_voxel lbls v ! 0) # drop 1 (encode_voxel lbls v)"
    by (cases "encode_voxel lbls v") (use length_encode_voxel[of lbls v] in auto)
  then have "channel_sum (encode_voxel lbls v)
      = uint (encode_voxel lbls v ! 0) + sum_list (map uint (drop 1 (encode_voxel lbls v)))"
    unfolding channel_sum_def by (metis list.simps(9) sum_list.Cons)
  then show ?thesis
    by (simp add: encode_voxel_0 drop_encode_voxel comp_def sum_masks)
qed


lemma replicate_two: "replicate 2 x = [x, x]"
  by (simp add: numeral_2_eq_2)


lemma mod_nonneg_65536: "0 \<le> (x :: int) mod 65536"
  by simp


lemmas encoder_eval = label_encoder_def encode_multi_def encode_binary_def zeros_like_def
  set_channel_def voxel_def background_def np_sum_u16_def label_mask_def f64_to_u16_def Let_def


lemma voxel_encode_multi:
  "in_volume img i j k \<Longrightarrow> voxel (encode_multi lbls img) i j k = encode_voxel lbls (voxel img i j k)"
  by (simp add: encode_multi_map3 voxel_map3)


lemma voxel_encode_binary:
  "in_volume img i j k \<Longrightarrow> voxel (encode_binary oor img) i j k =
     [f64_to_u16 oor ((1 - voxel img i j k) * 65535), f64_to_u16 oor (voxel img i j k * 65535)]"
  by (simp add: encode_binary_map3 voxel_map3)


lemma background_exact:
  "count_list lbls v \<le> 1 \<Longrightarrow>
     (65535 - 65535 * int (count_list lbls v)) mod 65536 = 65535 - 65535 * int (count_list lbls v)"
proof -
  assume "count_list lbls v \<le> 1"
  then have "count_list lbls v = 0 \<or> count_list lbls v = 1" by arith
  then show ?thesis by auto
qed

subsection \<open>Multi-structure encoding\<close>

text \<open>
  Claim C1, as amended. In multi-structure mode every voxel of the volume gets a vector of
  \<open>L + 1\<close> channels, where \<open>L\<close> is the number of labels. For every class index
  \<open>c\<close> from 1 to \<open>L\<close>, channel \<open>c\<close> is 65535 times the indicator that the
  voxel's label equals \<open>labels[c - 1]\<close>. Channel 0 is 65535 minus the sum of channels 1
  to \<open>L\<close> reduced modulo \<open>2^16\<close>, as the store into the \<open>uint16\<close> array does; it is
  exactly 65535 minus that sum whenever the voxel's label occurs at most once in
  \<open>labels\<close>.
\<close>

theorem label_encoder_multi_channels:
  assumes "in_volume img i j k"
  shows "length (voxel (label_encoder True oor lbls img) i j k) = length lbls + 1
    \<and> (\<forall>c. 1 \<le> c \<and> c \<le> length lbls \<longrightarrow>
          uint (voxel (label_encoder True oor lbls img) i j k ! c)
            = 65535 * of_bool (voxel img i j k = lbls ! (c - 1)))
    \<and> uint (voxel (label_encoder True oor lbls img) i j k ! 0)
          = (65535 - (\<Sum>c = 1..length lbls.
                uint (voxel (label_encoder True oor lbls img) i j k ! c))) mod 65536
    \<and> (count_list lbls (voxel img i j k) \<le> 1 \<longrightarrow>
          uint (voxel (label_encoder True oor lbls img) i j k ! 0)
            = 65535 - (\<Sum>c = 1..length lbls.
                uint (voxel (label_encoder True oor lbls img) i j k ! c)))"
proof -
  let ?v = "voxel img i j k"
  have r: "voxel (label_encoder True oor lbls img) i j k = encode_voxel lbls ?v"
    using assms by (simp add: label_encoder_def voxel_encode_multi)
  have a: "length (encode_voxel lbls ?v) = length lbls + 1"
    by (rule length_encode_voxel)
  have b: "\<forall>c. 1 \<le> c \<and> c \<le> length lbls \<longrightarrow>
          uint (encode_voxel lbls ?v ! c) = 65535 * of_bool (?v = lbls ! (c - 1))"
  proof (intro allI impI)
    fix c assume c: "1 \<le> c \<and> c \<le> length lbls"
    then obtain m where m: "c = Suc m" "m < length lbls" by (cases c) auto
    show "uint (encode_voxel lbls ?v ! c) = 65535 * of_bool (?v = lbls ! (c - 1))"
      using m by (simp add: encode_voxel_Suc uint_label_mask)
  qed
  have c: "uint (encode_voxel lbls ?v ! 0)
      = (65535 - (\<Sum>c = 1..length lbls. uint (encode_voxel lbls ?v ! c))) mod 65536"
    by (simp only: encode_voxel_0 sum_tail_channels)
  have d: "count_list lbls ?v \<le> 1 \<longrightarrow> uint (encode_voxel lbls ?v ! 0)
      = 65535 - (\<Sum>c = 1..length lbls. uint (encode_voxel lbls ?v ! c))"
    using background_exact[of lbls ?v] by (simp only: encode_voxel_0 sum_tail_channels) blast
  show ?thesis unfolding r using a b c d by blast
qed


text \<open>
  The scenario of the specification: labels \<open>[10, 20]\<close> on a volume whose voxel (0,0,0) is
  10, voxel (0,0,1) is 20 and the others are background.
\<close>

theorem label_encoder_multi_channels_witness:
  "in_volume [[[10, 20], [0, 0 :: int]]] 0 0 0
   \<and> voxel (label_encoder True word_of_int [10, 20] [[[10, 20], [0, 0]]]) 0 0 0 = [0, 65535, 0]
   \<and> voxel (label_encoder True word_of_int [10, 20] [[[10, 20], [0, 0]]]) 0 0 1 = [0, 0, 65535]
   \<and> voxel (label_encoder True word_of_int [10, 20] [[[10, 20], [0, 0]]]) 0 1 0 = [65535, 0, 0]
   \<and> voxel (label_encoder True word_of_int [10, 20] [[[10, 20], [0, 0]]]) 0 1 1 = [65535, 0, 0]
   \<and> uint (voxel (label_encoder True word_of_int [10, 20] [[[10, 20], [0, 0]]]) 0 0 0 ! 0)
       = 65535 - (\<Sum>c = 1..length [10, 20 :: int].
            uint (voxel (label_encoder True word_of_int [10, 20] [[[10, 20], [0, 0]]]) 0 0 0 ! c))"
proof -
  have v: "in_volume [[[10, 20], [0, 0 :: int]]] 0 0 0" by (simp add: in_volume_def)
  have c: "count_list [10, 20] (voxel [[[10, 20], [0, 0 :: int]]] 0 0 0) \<le> 1"
    by (simp add: voxel_def)
  have e: "label_encoder True word_of_int [10, 20] [[[10, 20], [0, 0]]]
     = [[[[0, 65535, 0], [0, 0, 65535]], [[65535, 0, 0], [65535, 0, 0]]]]"
    by (simp add: encoder_eval)
  from label_encoder_multi_channels [OF v, of word_of_int "[10, 20]"] c
  have "uint (voxel (label_encoder True word_of_int [10, 20] [[[10, 20], [0, 0]]]) 0 0 0 ! 0)
       = 65535 - (\<Sum>c = 1..length [10, 20 :: int].
            uint (voxel (label_encoder True word_of_int [10, 20] [[[10, 20], [0, 0]]]) 0 0 0 ! c))"
    by blast
  moreover have "voxel (label_encoder True word_of_int [10, 20] [[[10, 20], [0, 0]]]) 0 0 0 = [0, 65535, 0]"
    "voxel (label_encoder True word_of_int [10, 20] [[[10, 20], [0, 0]]]) 0 0 1 = [0, 0, 65535]"
    "voxel (label_encoder True word_of_int [10, 20] [[[10, 20], [0, 0]]]) 0 1 0 = [65535, 0, 0]"
    "voxel (label_encoder True word_of_int [10, 20] [[[10, 20], [0, 0]]]) 0 1 1 = [65535, 0, 0]"
    by (simp_all add: e voxel_def)
  ultimately show ?thesis using v by blast
qed

text \<open>
  The same scenario on a volume of any shape: a voxel labelled 10 gets full scale in
  channel 1, a voxel labelled 20 gets it in channel 2, and any other voxel gets it in
  channel 0; the remaining channels are 0.
\<close>

lemma encode_voxel_10_20:
  "encode_voxel [10, 20] v =
     (if v = 10 then [0, 65535, 0] else if v = 20 then [0, 0, 65535] else [65535, 0, 0])"
  by (simp add: encode_voxel_def label_mask_def background_def np_sum_u16_def Let_def)

lemma label_encoder_scenario:
  assumes "in_volume img i j k"
  shows "voxel (label_encoder True oor [10, 20] img) i j k =
     (if voxel img i j k = 10 then [0, 65535, 0]
      else if voxel img i j k = 20 then [0, 0, 65535] else [65535, 0, 0])"
  using assms by (simp add: label_encoder_def voxel_encode_multi encode_voxel_10_20)

text \<open>
  Claim C1 as stated fails where a label is listed twice: with labels \<open>[10, 10]\<close> a voxel
  labelled 10 has both foreground channels at 65535, and channel 0 holds 1, not
  \<open>65535 - 131070\<close>.
\<close>

theorem label_encoder_multi_background_counterexample:
  "in_volume [[[10 :: int]]] 0 0 0
   \<and> voxel (label_encoder True word_of_int [10, 10] [[[10]]]) 0 0 0 = [1, 65535, 65535]
   \<and> uint (voxel (label_encoder True word_of_int [10, 10] [[[10]]]) 0 0 0 ! 0)
        \<noteq> 65535 - (uint (voxel (label_encoder True word_of_int [10, 10] [[[10]]]) 0 0 0 ! 1)
                    + uint (voxel (label_encoder True word_of_int [10, 10] [[[10]]]) 0 0 0 ! 2))"
  by (simp add: encoder_eval in_volume_def)

subsection \<open>Sum over the channels\<close>

text \<open>
  Claim C2, as amended. The encoder's output has \<open>number_of_classes\<close> channels at every
  voxel. In multi-structure mode the channels of a voxel add up to exactly 65535, in
  integer arithmetic, if and only if the voxel's label occurs at most once in \<open>labels\<close>.
  In binary mode they add up to exactly 65535 at every voxel whose value is 0 or 1.
\<close>

theorem label_encoder_channel_sum:
  assumes "in_volume img i j k"
  shows "length (voxel (label_encoder True oor lbls img) i j k) = number_of_classes True lbls
    \<and> length (voxel (label_encoder False oor lbls img) i j k) = number_of_classes False lbls
    \<and> (channel_sum (voxel (label_encoder True oor lbls img) i j k) = 65535
           \<longleftrightarrow> count_list lbls (voxel img i j k) \<le> 1)
    \<and> (voxel img i j k \<in> {0, 1} \<longrightarrow>
           channel_sum (voxel (label_encoder False oor lbls img) i j k) = 65535)"
proof -
  let ?v = "voxel img i j k"
  let ?n = "count_list lbls ?v"
  have m: "voxel (label_encoder True oor lbls img) i j k = encode_voxel lbls ?v"
    using assms by (simp add: label_encoder_def voxel_encode_multi)
  have b: "voxel (label_encoder False oor lbls img) i j k
      = [f64_to_u16 oor ((1 - ?v) * 65535), f64_to_u16 oor (?v * 65535)]"
    using assms by (simp add: label_encoder_def voxel_encode_binary)
  have s: "channel_sum (encode_voxel lbls ?v)
      = (65535 - 65535 * int ?n) mod 65536 + 65535 * int ?n"
    by (rule channel_sum_encode_voxel)
  have iff: "channel_sum (encode_voxel lbls ?v) = 65535 \<longleftrightarrow> ?n \<le> 1"
  proof (cases "?n \<le> 1")
    case True
    then show ?thesis using s background_exact[of lbls ?v] by simp
  next
    case False
    then have "131070 \<le> 65535 * int ?n" by simp
    moreover have "0 \<le> (65535 - 65535 * int ?n) mod 65536" by (rule mod_nonneg_65536)
    ultimately have "131070 \<le> channel_sum (encode_voxel lbls ?v)" using s by linarith
    then show ?thesis using False by simp
  qed
  have bin: "?v \<in> {0, 1} \<longrightarrow> channel_sum [f64_to_u16 oor ((1 - ?v) * 65535), f64_to_u16 oor (?v * 65535)] = 65535"
    by (auto simp add: channel_sum_def f64_to_u16_def)
  show ?thesis
    unfolding m b using iff bin by (simp add: length_encode_voxel number_of_classes_def)
qed

theorem label_encoder_channel_sum_witness:
  "in_volume [[[1 :: int]]] 0 0 0 \<and> count_list [1] (voxel [[[1 :: int]]] 0 0 0) \<le> 1
   \<and> voxel [[[1 :: int]]] 0 0 0 \<in> {0, 1}
   \<and> channel_sum (voxel (label_encoder True word_of_int [1] [[[1]]]) 0 0 0) = 65535
   \<and> channel_sum (voxel (label_encoder False word_of_int [1] [[[1]]]) 0 0 0) = 65535"
proof -
  have v: "in_volume [[[1 :: int]]] 0 0 0" by (simp add: in_volume_def)
  have c: "count_list [1] (voxel [[[1 :: int]]] 0 0 0) \<le> 1" by (simp add: voxel_def)
  have d: "voxel [[[1 :: int]]] 0 0 0 \<in> {0, 1}" by (simp add: voxel_def)
  show ?thesis
    using label_encoder_channel_sum [OF v, of word_of_int "[1]"] v c d by blast
qed

text \<open>
  Claim C2 as stated fails in multi-structure mode with labels \<open>[10, 10]\<close>: at a voxel
  labelled 10 the three channels add up to 131071.
\<close>

theorem label_encoder_channel_sum_counterexample:
  "in_volume [[[10 :: int]]] 0 0 0
   \<and> channel_sum (voxel (label_encoder True word_of_int [10, 10] [[[10]]]) 0 0 0) = 131071"
  by (simp add: encoder_eval in_volume_def channel_sum_def)

subsection \<open>Overlapping labels\<close>

text \<open>
  Claim C8. At a voxel whose label occurs at least twice in \<open>labels\<close>, the foreground
  channels 1 to \<open>L\<close> add up to more than 65535, so \<open>65535\<close> minus their sum is negative;
  the encoder still returns a value for channel 0, namely that difference modulo
  \<open>2^16\<close>, which is not the difference itself, and the channels of the voxel add up to
  more than full scale.
\<close>

theorem label_overlap_wraps:
  assumes "in_volume img i j k" and "2 \<le> count_list lbls (voxel img i j k)"
  shows "(\<Sum>c = 1..length lbls. uint (voxel (label_encoder True oor lbls img) i j k ! c))
            = 65535 * int (count_list lbls (voxel img i j k))
    \<and> 65535 < (\<Sum>c = 1..length lbls. uint (voxel (label_encoder True oor lbls img) i j k ! c))
    \<and> 65535 - (\<Sum>c = 1..length lbls. uint (voxel (label_encoder True oor lbls img) i j k ! c)) < 0
    \<and> uint (voxel (label_encoder True oor lbls img) i j k ! 0)
          = (65535 - (\<Sum>c = 1..length lbls.
                uint (voxel (label_encoder True oor lbls img) i j k ! c))) mod 2 ^ 16
    \<and> uint (voxel (label_encoder True oor lbls img) i j k ! 0)
          \<noteq> 65535 - (\<Sum>c = 1..length lbls.
                uint (voxel (label_encoder True oor lbls img) i j k ! c))
    \<and> 65535 < channel_sum (voxel (label_encoder True oor lbls img) i j k)"
proof -
  let ?v = "voxel img i j k"
  let ?n = "count_list lbls ?v"
  let ?S = "\<Sum>c = 1..length lbls. uint (encode_voxel lbls ?v ! c)"
  have m: "voxel (label_encoder True oor lbls img) i j k = encode_voxel lbls ?v"
    using assms(1) by (simp add: label_encoder_def voxel_encode_multi)
  have S: "?S = 65535 * int ?n" by (rule sum_tail_channels)
  have big: "131070 \<le> ?S" using assms(2) S by simp
  have z: "uint (encode_voxel lbls ?v ! 0) = (65535 - ?S) mod 2 ^ 16"
    by (simp only: encode_voxel_0 S) simp
  have nn: "0 \<le> uint (encode_voxel lbls ?v ! 0)" by simp
  have ne: "uint (encode_voxel lbls ?v ! 0) \<noteq> 65535 - ?S"
    using nn big by linarith
  have "0 \<le> (65535 - 65535 * int ?n) mod 65536" by (rule mod_nonneg_65536)
  then have cs: "65535 < channel_sum (encode_voxel lbls ?v)"
    using big S by (simp only: channel_sum_encode_voxel)
  show ?thesis unfolding m using S big z ne cs by simp
qed

theorem label_overlap_wraps_witness:
  "in_volume [[[10 :: int]]] 0 0 0 \<and> 2 \<le> count_list [10, 10] (voxel [[[10 :: int]]] 0 0 0)
   \<and> (\<Sum>c = 1..length [10, 10 :: int].
          uint (voxel (label_encoder True word_of_int [10, 10] [[[10]]]) 0 0 0 ! c)) = 131070
   \<and> uint (voxel (label_encoder True word_of_int [10, 10] [[[10]]]) 0 0 0 ! 0) = 1"
proof -
  have v: "in_volume [[[10 :: int]]] 0 0 0" by (simp add: in_volume_def)
  have c: "2 \<le> count_list [10, 10] (voxel [[[10 :: int]]] 0 0 0)" by (simp add: voxel_def)
  have n: "65535 * int (count_list [10, 10] (voxel [[[10 :: int]]] 0 0 0)) = 131070"
    by (simp add: voxel_def)
  have s: "(\<Sum>c = 1..length [10, 10 :: int].
          uint (voxel (label_encoder True word_of_int [10, 10] [[[10]]]) 0 0 0 ! c)) = 131070"
    using label_overlap_wraps [OF v c, of word_of_int] n by (simp only:)
  have z: "uint (voxel (label_encoder True word_of_int [10, 10] [[[10]]]) 0 0 0 ! 0) = (65535 - 131070) mod 2 ^ 16"
    using label_overlap_wraps [OF v c, of word_of_int] s by (simp only:)
  show ?thesis using v c s z by simp
qed

subsection \<open>Binary encoding\<close>

text \<open>
  Claim C3, as amended. In binary mode the encoder does not read \<open>labels\<close>. At every voxel
  whose value \<open>v\<close> is 0 or 1, channel 0 is \<open>65535 * (1 - v)\<close> and channel 1 is
  \<open>65535 * v\<close>: the encoding of the specification for the foreground label 1.
\<close>

theorem binary_encoder_mask:
  assumes "in_volume img i j k" and "voxel img i j k \<in> {0, 1}"
  shows "voxel (label_encoder False oor lbls img) i j k
           = [word_of_int (65535 * (1 - voxel img i j k)), word_of_int (65535 * voxel img i j k)]
    \<and> voxel (label_encoder False oor lbls img) i j k = spec_binary_voxel 1 (voxel img i j k)"
  using assms
  by (auto simp add: label_encoder_def voxel_encode_binary f64_to_u16_def spec_binary_voxel_def)

theorem binary_encoder_mask_witness:
  "in_volume [[[1 :: int]]] 0 0 0 \<and> voxel [[[1 :: int]]] 0 0 0 \<in> {0, 1}
   \<and> voxel (label_encoder False word_of_int [17] [[[1]]]) 0 0 0 = [0, 65535]"
proof -
  have v: "in_volume [[[1 :: int]]] 0 0 0" by (simp add: in_volume_def)
  have d: "voxel [[[1 :: int]]] 0 0 0 \<in> {0, 1}" by (simp add: voxel_def)
  have e: "[word_of_int (65535 * (1 - voxel [[[1 :: int]]] 0 0 0)), word_of_int (65535 * voxel [[[1 :: int]]] 0 0 0)]
      = [0, 65535 :: u16]" by (simp add: voxel_def)
  show ?thesis using binary_encoder_mask [OF v d, of word_of_int "[17]"] v d e by simp
qed

text \<open>
  Claim C3 as stated fails for a foreground label other than 1: with labels \<open>[17]\<close> a voxel
  of value 1 is encoded as foreground, although its label is not 17. For the foreground
  label 1 it fails on a volume that is not a mask when the out-of-range conversion wraps
  around: a voxel of value 2 is encoded \<open>[1, 65534]\<close>, not as background.
\<close>

theorem binary_encoder_indicator_counterexample:
  "in_volume [[[1 :: int]]] 0 0 0
   \<and> voxel (label_encoder False word_of_int [17] [[[1]]]) 0 0 0 = [0, 65535]
   \<and> spec_binary_voxel 17 1 = [65535, 0]
   \<and> voxel (label_encoder False word_of_int [17] [[[1]]]) 0 0 0 \<noteq> spec_binary_voxel 17 1
   \<and> voxel (label_encoder False word_of_int [1] [[[2]]]) 0 0 0 = [1, 65534]
   \<and> spec_binary_voxel 1 2 = [65535, 0]"
  by (simp add: encoder_eval in_volume_def spec_binary_voxel_def replicate_two)

section \<open>Properties of the Deformation Applier\<close>

lemma padd_finite:
  "padd (Some x, Some y, Some z) (Some u, Some v, Some w) = (Some (x + u), Some (y + v), Some (z + w))"
  by (simp add: padd_def fadd_def)

text \<open>
  Claim C4. With a crop offset of three integers, the Deformation Applier returns, for
  every node, the reference position plus the node's displacement plus the crop offset,
  the same offset for every node; it returns positions exactly when there are as many
  displacements as nodes, and fails with \<open>ShapeMismatch\<close> otherwise.
\<close>

theorem deformation_applier_positions:
  "(length displacement \<noteq> length reference \<longrightarrow>
      deformation_applier reference displacement [(sx, ex), (sy, ey), (sz, ez)] = Inl ShapeMismatch)
   \<and> (length displacement = length reference \<longrightarrow>
        (\<exists>node_positions.
           deformation_applier reference displacement [(sx, ex), (sy, ey), (sz, ez)] = Inr node_positions
           \<and> length node_positions = length reference
           \<and> (\<forall>n < length reference.
                 node_positions ! n =
                   padd (padd (reference ! n) (displacement ! n))
                     (Some (real_of_int sx), Some (real_of_int sy), Some (real_of_int sz)))))"
  by (simp add: deformation_applier_def getMesh_def add_cropping_def crop_offset_def)

theorem deformation_applier_positions_witness:
  "length [(Some 10, Some 20, Some 30) :: point] = length [(Some 1, Some 2, Some 3) :: point]
   \<and> deformation_applier [(Some 1, Some 2, Some 3)] [(Some 10, Some 20, Some 30)]
         [(100, 200), (200, 300), (300, 400)] = Inr [(Some 111, Some 222, Some 333)]"
proof -
  have l: "length [(Some 10, Some 20, Some 30) :: point] = length [(Some 1, Some 2, Some 3) :: point]"
    by simp
  obtain ps where ps: "deformation_applier [(Some 1, Some 2, Some 3)] [(Some 10, Some 20, Some 30)]
         [(100, 200), (200, 300), (300, 400)] = Inr ps" "length ps = 1"
      "ps ! 0 = padd (padd (Some 1, Some 2, Some 3) (Some 10, Some 20, Some 30))
                  (Some (real_of_int 100), Some (real_of_int 200), Some (real_of_int 300))"
    using deformation_applier_positions [of "[(Some 10, Some 20, Some 30)]" "[(Some 1, Some 2, Some 3)]"
        100 200 200 300 300 400] l by auto
  have "ps = [ps ! 0]" using ps(2) by (cases ps) auto
  then have "ps = [(Some 111, Some 222, Some 333)]" using ps(3) by (simp add: padd_finite)
  then show ?thesis using ps(1) l by simp
qed

section \<open>Properties of the EM Fitter\<close>

lemma em_loop_funpow: "em_loop f n (a, p) = ((f ^^ n) a, p + n)"
  by (induction n arbitrary: a p) (simp_all add: funpow_swap1)

text \<open>
  Claim C7. For every iteration step (that is, for every geometry and target volume) and
  every non-negative iteration count, the EM Fitter performs exactly that many
  iterations, whatever the alphas are: its result is the step applied that many times
  to the uniform alphas. The count is the option \<open>--EM-iterations\<close>, whose default is 10.
\<close>

theorem fit_alphas_iterations:
  assumes "0 \<le> iterations"
  shows "int (snd (fit_alphas step number_of_nodes classes iterations)) = iterations
       \<and> fst (fit_alphas step number_of_nodes classes iterations)
           = (step ^^ nat iterations) (uniform_alphas number_of_nodes classes)
       \<and> EM_iterations (default_args sd mc od) = 10"
  using assms by (simp add: fit_alphas_def em_loop_funpow default_args_def)

theorem fit_alphas_iterations_witness:
  "0 \<le> EM_iterations (default_args ''subjects'' [] ''out'')
   \<and> snd (fit_alphas (map (map (\<lambda>x. fdiv x (Some 2)))) 1 2
             (EM_iterations (default_args ''subjects'' [] ''out''))) = 10"
proof -
  have d: "EM_iterations (default_args ''subjects'' [] ''out'') = 10"
    by (simp add: default_args_def)
  have h: "0 \<le> EM_iterations (default_args ''subjects'' [] ''out'')"
    by (simp add: d)
  have "int (snd (fit_alphas (map (map (\<lambda>x. fdiv x (Some 2)))) 1 2
             (EM_iterations (default_args ''subjects'' [] ''out'')))) = 10"
    using fit_alphas_iterations [OF h, of "map (map (\<lambda>x. fdiv x (Some 2)))" 1 2] d by simp
  then show ?thesis using h by simp
qed

text \<open>main hands \<open>args.EM_iterations\<close> to the fitter unchanged (line 192).\<close>

lemma fit_subject_iterations:
  assumes "fit_subject c a lbls level ref subject_dir = Inr (img, m)"
  shows "alphas m = fst (fit_alphas
            (em_step c (points m) (label_encoder (multi_structure a) (out_of_range c) lbls img))
            (length (points m)) (number_of_classes (multi_structure a) lbls) (EM_iterations a))"
  using assms
  by (auto simp add: fit_subject_def Let_def split: option.splits if_splits sum.splits)

section \<open>Properties of the Atlas Aggregator\<close>

subsection \<open>Storing one subject\<close>

lemma shape_of_length: "shape_of s = shape_of t \<Longrightarrow> length s = length t"
  unfolding shape_of_def by (metis length_map)

lemma shape_of_row:
  assumes "shape_of s = shape_of t" and "n < length t"
  shows "length (s ! n) = length (t ! n)"
proof -
  have "length s = length t" using assms(1) by (rule shape_of_length)
  moreover have "shape_of s ! n = shape_of t ! n" using assms(1) by simp
  ultimately have "map length (s ! n) = map length (t ! n)"
    using assms(2) by (simp add: shape_of_def)
  then show ?thesis by (metis length_map)
qed

lemma shape_of_cell:
  assumes "shape_of s = shape_of t" and "n < length t" and "k < length (t ! n)"
  shows "length (s ! n ! k) = length (t ! n ! k)"
proof -
  have l: "length s = length t" using assms(1) by (rule shape_of_length)
  have r: "length (s ! n) = length (t ! n)" using assms(1,2) by (rule shape_of_row)
  have "shape_of s ! n = shape_of t ! n" using assms(1) by simp
  then have "map length (s ! n) = map length (t ! n)"
    using assms(2) l by (simp add: shape_of_def)
  then have "map length (s ! n) ! k = map length (t ! n) ! k" by simp
  then show ?thesis using assms(3) r by simp
qed

lemma store_subject_entry:
  assumes "store_subject i al stats = Inr stats'" and "n < length stats" and "k < length (stats ! n)"
  shows "stats' ! n ! k = (stats ! n ! k)[i := al ! n ! k]"
    and "length (al ! n) = length (stats ! n)" and "length al = length stats"
proof -
  have a2: "list_all2 (\<lambda>row cells. length row = length cells) al stats"
    and eq: "stats' = map2 (map2 (\<lambda>x cell. cell[i := x])) al stats"
    using assms(1) by (auto simp add: store_subject_def split: if_splits)
  show l: "length al = length stats" using a2 by (rule list_all2_lengthD)
  show r: "length (al ! n) = length (stats ! n)"
    using a2 assms(2) by (simp add: list_all2_conv_all_nth)
  show "stats' ! n ! k = (stats ! n ! k)[i := al ! n ! k]"
    using l r assms(2,3) by (simp add: eq)
qed

lemma store_subject_rows:
  assumes "store_subject i al stats = Inr stats'" and "n < length stats"
  shows "length (al ! n) = length (stats ! n)"
proof -
  have "list_all2 (\<lambda>row cells. length row = length cells) al stats"
    using assms(1) by (auto simp add: store_subject_def split: if_splits)
  then show ?thesis using assms(2) by (simp add: list_all2_conv_all_nth)
qed

lemma store_subject_shape:
  assumes "store_subject i al stats = Inr stats'"
  shows "shape_of stats' = shape_of stats"
proof -
  have a2: "list_all2 (\<lambda>row cells. length row = length cells) al stats"
    and eq: "stats' = map2 (map2 (\<lambda>x cell. cell[i := x])) al stats"
    using assms(1) by (auto simp add: store_subject_def split: if_splits)
  have l: "length al = length stats" using a2 by (rule list_all2_lengthD)
  have r: "\<And>n. n < length stats \<Longrightarrow> length (al ! n) = length (stats ! n)"
    using a2 by (simp add: list_all2_conv_all_nth)
  show ?thesis
    unfolding shape_of_def
  proof (rule nth_equalityI)
    show "length (map (map length) stats') = length (map (map length) stats)"
      using l by (simp add: eq)
  next
    fix n assume "n < length (map (map length) stats')"
    then have n: "n < length stats" using l by (simp add: eq)
    show "map (map length) stats' ! n = map (map length) stats ! n"
      using n l r[OF n] by (auto simp add: eq intro!: nth_equalityI)
  qed
qed

subsection \<open>The loop over the subjects\<close>

lemma load_segmentation_image_save_figs:
  "load_segmentation_image c a subject_dir = Inr img \<Longrightarrow> save_figs a"
  by (auto simp add: load_segmentation_image_def split: if_splits option.splits)

lemma fit_subject_save_figs:
  "fit_subject c a lbls level ref subject_dir = Inr r \<Longrightarrow> save_figs a"
  by (auto simp add: fit_subject_def split: sum.splits dest: load_segmentation_image_save_figs)

lemma subject_loop_Cons_Inr:
  assumes "subject_loop c a lbls level ref ((i, s) # rest) st = (evs, Inr st')"
  obtains img m stats evs' where
    "fit_subject c a lbls level ref s = Inr (img, m)"
    "store_subject i (alphas m) (statistics st) = Inr stats"
    "subject_loop c a lbls level ref rest
        \<lparr>statistics = stats, mesh = m, segmentation_image = Some img\<rparr> = (evs', Inr st')"
  using assms by (auto split: sum.splits prod.splits)

lemma subject_loop_Inr:
  assumes "subject_loop c a lbls level ref xs st = (evs, Inr st')" and "distinct (map fst xs)"
  shows "shape_of (statistics st') = shape_of (statistics st)
    \<and> (\<forall>i s. (i, s) \<in> set xs \<longrightarrow>
          (\<exists>img m. fit_subject c a lbls level ref s = Inr (img, m)
             \<and> (\<forall>n. n < length (statistics st) \<longrightarrow>
                   length (alphas m ! n) = length (statistics st ! n))
             \<and> (\<forall>n k. n < length (statistics st) \<longrightarrow> k < length (statistics st ! n) \<longrightarrow>
                   i < length (statistics st ! n ! k) \<longrightarrow>
                   statistics st' ! n ! k ! i = alphas m ! n ! k)))
    \<and> (\<forall>n k j. n < length (statistics st) \<longrightarrow> k < length (statistics st ! n) \<longrightarrow>
          j \<notin> fst ` set xs \<longrightarrow> statistics st' ! n ! k ! j = statistics st ! n ! k ! j)
    \<and> (xs = [] \<longrightarrow> st' = st)
    \<and> (xs \<noteq> [] \<longrightarrow>
          (\<exists>img. fit_subject c a lbls level ref (snd (last xs)) = Inr (img, mesh st')
             \<and> segmentation_image st' = Some img))"
  using assms
proof (induction xs arbitrary: st evs)
  case Nil
  then show ?case by simp
next
  case (Cons x rest)
  obtain i s where x: "x = (i, s)" by (cases x)
  from Cons.prems(1) obtain img m stats evs' where
    fit: "fit_subject c a lbls level ref s = Inr (img, m)" and
    store: "store_subject i (alphas m) (statistics st) = Inr stats" and
    rec: "subject_loop c a lbls level ref rest
        \<lparr>statistics = stats, mesh = m, segmentation_image = Some img\<rparr> = (evs', Inr st')"
    unfolding x by (rule subject_loop_Cons_Inr)
  let ?st1 = "\<lparr>statistics = stats, mesh = m, segmentation_image = Some img\<rparr>"
  have d: "distinct (map fst rest)" and inot: "i \<notin> fst ` set rest"
    using Cons.prems(2) by (simp_all add: x)
  note IH = Cons.IH [OF rec d]
  have IHA: "shape_of (statistics st') = shape_of stats"
    using IH [THEN conjunct1] by simp
  have IHB: "\<And>i' s'. (i', s') \<in> set rest \<Longrightarrow>
          \<exists>img m. fit_subject c a lbls level ref s' = Inr (img, m)
             \<and> (\<forall>n. n < length stats \<longrightarrow> length (alphas m ! n) = length (stats ! n))
             \<and> (\<forall>n k. n < length stats \<longrightarrow> k < length (stats ! n) \<longrightarrow>
                   i' < length (stats ! n ! k) \<longrightarrow>
                   statistics st' ! n ! k ! i' = alphas m ! n ! k)"
    using IH [THEN conjunct2, THEN conjunct1] by simp
  have IHC: "\<And>n k j. n < length stats \<Longrightarrow> k < length (stats ! n) \<Longrightarrow> j \<notin> fst ` set rest \<Longrightarrow>
          statistics st' ! n ! k ! j = stats ! n ! k ! j"
    using IH [THEN conjunct2, THEN conjunct2, THEN conjunct1] by simp
  have IHD: "rest = [] \<Longrightarrow> st' = ?st1"
    using IH [THEN conjunct2, THEN conjunct2, THEN conjunct2, THEN conjunct1] by simp
  have IHE: "rest \<noteq> [] \<Longrightarrow>
          \<exists>img. fit_subject c a lbls level ref (snd (last rest)) = Inr (img, mesh st')
             \<and> segmentation_image st' = Some img"
    using IH [THEN conjunct2, THEN conjunct2, THEN conjunct2, THEN conjunct2] by simp
  have sh1: "shape_of stats = shape_of (statistics st)" using store by (rule store_subject_shape)
  have len1: "length stats = length (statistics st)" using sh1 by (rule shape_of_length)
  have row1: "\<And>n. n < length (statistics st) \<Longrightarrow> length (stats ! n) = length (statistics st ! n)"
    using sh1 by (rule shape_of_row)
  have cell1: "\<And>n k. n < length (statistics st) \<Longrightarrow> k < length (statistics st ! n) \<Longrightarrow>
      length (stats ! n ! k) = length (statistics st ! n ! k)"
    using sh1 by (rule shape_of_cell)
  have ent1: "\<And>n k. n < length (statistics st) \<Longrightarrow> k < length (statistics st ! n) \<Longrightarrow>
      stats ! n ! k = (statistics st ! n ! k)[i := alphas m ! n ! k]"
    using store by (rule store_subject_entry(1))
  have A: "shape_of (statistics st') = shape_of (statistics st)"
    using IHA sh1 by simp
  have C: "\<forall>n k j. n < length (statistics st) \<longrightarrow> k < length (statistics st ! n) \<longrightarrow>
          j \<notin> fst ` set (x # rest) \<longrightarrow> statistics st' ! n ! k ! j = statistics st ! n ! k ! j"
  proof (intro allI impI)
    fix n k j
    assume n: "n < length (statistics st)" and k: "k < length (statistics st ! n)"
      and j: "j \<notin> fst ` set (x # rest)"
    have jr: "j \<notin> fst ` set rest" and ji: "j \<noteq> i" using j by (simp_all add: x)
    have "statistics st' ! n ! k ! j = stats ! n ! k ! j"
      using n k jr len1 row1[OF n] by (intro IHC) simp_all
    also have "\<dots> = statistics st ! n ! k ! j"
      using ent1[OF n k] ji by simp
    finally show "statistics st' ! n ! k ! j = statistics st ! n ! k ! j" .
  qed
  have B: "\<forall>i' s'. (i', s') \<in> set (x # rest) \<longrightarrow>
          (\<exists>img m. fit_subject c a lbls level ref s' = Inr (img, m)
             \<and> (\<forall>n. n < length (statistics st) \<longrightarrow>
                   length (alphas m ! n) = length (statistics st ! n))
             \<and> (\<forall>n k. n < length (statistics st) \<longrightarrow> k < length (statistics st ! n) \<longrightarrow>
                   i' < length (statistics st ! n ! k) \<longrightarrow>
                   statistics st' ! n ! k ! i' = alphas m ! n ! k))"
  proof (intro allI impI)
    fix i' s' assume mem: "(i', s') \<in> set (x # rest)"
    then consider (head) "i' = i" "s' = s" | (tail) "(i', s') \<in> set rest"
      by (auto simp add: x)
    then show "\<exists>img m. fit_subject c a lbls level ref s' = Inr (img, m)
             \<and> (\<forall>n. n < length (statistics st) \<longrightarrow>
                   length (alphas m ! n) = length (statistics st ! n))
             \<and> (\<forall>n k. n < length (statistics st) \<longrightarrow> k < length (statistics st ! n) \<longrightarrow>
                   i' < length (statistics st ! n ! k) \<longrightarrow>
                   statistics st' ! n ! k ! i' = alphas m ! n ! k)"
    proof cases
      case head
      have e: "\<forall>n k. n < length (statistics st) \<longrightarrow> k < length (statistics st ! n) \<longrightarrow>
                   i < length (statistics st ! n ! k) \<longrightarrow>
                   statistics st' ! n ! k ! i = alphas m ! n ! k"
      proof (intro allI impI)
        fix n k
        assume n: "n < length (statistics st)" and k: "k < length (statistics st ! n)"
          and i: "i < length (statistics st ! n ! k)"
        have "statistics st' ! n ! k ! i = stats ! n ! k ! i"
          using n k inot len1 row1[OF n] by (intro IHC) simp_all
        also have "\<dots> = alphas m ! n ! k" using ent1[OF n k] i by simp
        finally show "statistics st' ! n ! k ! i = alphas m ! n ! k" .
      qed
      have r: "\<forall>n. n < length (statistics st) \<longrightarrow>
                   length (alphas m ! n) = length (statistics st ! n)"
        using store_subject_rows[OF store] by simp
      show ?thesis
        unfolding head using fit r e by (intro exI conjI)
    next
      case tail
      from IHB[OF tail] obtain img' m' where
        f': "fit_subject c a lbls level ref s' = Inr (img', m')" and
        r': "\<forall>n. n < length stats \<longrightarrow> length (alphas m' ! n) = length (stats ! n)" and
        e': "\<forall>n k. n < length stats \<longrightarrow> k < length (stats ! n) \<longrightarrow>
                   i' < length (stats ! n ! k) \<longrightarrow>
                   statistics st' ! n ! k ! i' = alphas m' ! n ! k"
        by blast
      have e: "\<forall>n k. n < length (statistics st) \<longrightarrow> k < length (statistics st ! n) \<longrightarrow>
                   i' < length (statistics st ! n ! k) \<longrightarrow>
                   statistics st' ! n ! k ! i' = alphas m' ! n ! k"
      proof (intro allI impI)
        fix n k
        assume n: "n < length (statistics st)" and k: "k < length (statistics st ! n)"
          and i: "i' < length (statistics st ! n ! k)"
        show "statistics st' ! n ! k ! i' = alphas m' ! n ! k"
          using e'[rule_format, of n k] n k i len1 row1[OF n] cell1[OF n k] by simp
      qed
      have r: "\<forall>n. n < length (statistics st) \<longrightarrow>
                   length (alphas m' ! n) = length (statistics st ! n)"
        using r' len1 row1 by simp
      show ?thesis using f' r e by (intro exI conjI)
    qed
  qed
  have E: "\<exists>img. fit_subject c a lbls level ref (snd (last (x # rest))) = Inr (img, mesh st')
             \<and> segmentation_image st' = Some img"
  proof (cases "rest = []")
    case True
    then have "st' = ?st1" by (rule IHD)
    then show ?thesis using fit True by (simp add: x)
  next
    case False
    then show ?thesis using IHE by simp
  qed
  show ?case
    by (intro conjI) (use A B C E in simp_all)
qed

subsection \<open>The figures of the average and the level as a whole\<close>

lemma average_prior_Inr:
  assumes "average_prior c st = Inr (st1, prior)"
  shows "statistics st1 = statistics st" and "segmentation_image st1 = segmentation_image st"
    and "alphas (mesh st1) = np_mean_axis2 (float_mean c) (statistics st)"
    and "points (mesh st1) = points (mesh st)"
    and "segmentation_image st \<noteq> None"
  using assms by (auto simp add: average_prior_def Let_def split: option.splits)

lemma average_figures_Inr:
  assumes "average_figures c a level st = (evs, Inr st2)"
  shows "statistics st2 = statistics st"
    and "segmentation_image st2 = segmentation_image st"
    and "show_figs a \<or> save_average_figs a \<Longrightarrow> alphas (mesh st2) = np_mean_axis2 (float_mean c) (statistics st)"
    and "show_figs a \<or> save_average_figs a \<Longrightarrow> segmentation_image st \<noteq> None"
    and "\<not> show_figs a \<Longrightarrow> \<not> save_average_figs a \<Longrightarrow> st2 = st"
    and "save_average_figs a \<Longrightarrow> save_figs a"
proof -
  show "\<not> show_figs a \<Longrightarrow> \<not> save_average_figs a \<Longrightarrow> st2 = st"
    using assms by (simp add: average_figures_def)
  show "save_average_figs a \<Longrightarrow> save_figs a"
    using assms
    by (cases "show_figs a")
       (auto simp add: average_figures_def split: sum.splits if_splits prod.splits)
  consider (neither) "\<not> show_figs a" "\<not> save_average_figs a"
    | (shown) "show_figs a" "\<not> save_average_figs a"
    | (saved) "\<not> show_figs a" "save_average_figs a"
    | (twice) "show_figs a" "save_average_figs a" by blast
  then have "statistics st2 = statistics st \<and> segmentation_image st2 = segmentation_image st
      \<and> (show_figs a \<or> save_average_figs a \<longrightarrow>
            alphas (mesh st2) = np_mean_axis2 (float_mean c) (statistics st) \<and> segmentation_image st \<noteq> None)"
  proof cases
    case neither
    then show ?thesis using assms by (simp add: average_figures_def)
  next
    case shown
    then obtain prior where "average_prior c st = Inr (st2, prior)"
      using assms by (auto simp add: average_figures_def split: sum.splits if_splits)
    then show ?thesis using average_prior_Inr[of c st st2 prior] by simp
  next
    case saved
    then obtain prior where "average_prior c st = Inr (st2, prior)"
      using assms by (auto simp add: average_figures_def split: sum.splits if_splits)
    then show ?thesis using average_prior_Inr[of c st st2 prior] by simp
  next
    case twice
    then obtain st1 p1 p2 where 1: "average_prior c st = Inr (st1, p1)"
      and 2: "average_prior c st1 = Inr (st2, p2)"
      using assms by (auto simp add: average_figures_def split: sum.splits if_splits)
    show ?thesis
      using average_prior_Inr[OF 1] average_prior_Inr[OF 2] by simp
  qed
  then show "statistics st2 = statistics st"
    and "segmentation_image st2 = segmentation_image st"
    and "show_figs a \<or> save_average_figs a \<Longrightarrow> alphas (mesh st2) = np_mean_axis2 (float_mean c) (statistics st)"
    and "show_figs a \<or> save_average_figs a \<Longrightarrow> segmentation_image st \<noteq> None"
    by blast+
qed

lemma run_level_Inr:
  assumes "run_level c a lbls subjects bound (level, file) = (evs, Inr st)"
  obtains ref evs1 st1 evs2 where
    "reference_mesh c file = Some ref"
    "subject_loop c a lbls level ref (enumerate 0 subjects)
       \<lparr>statistics = np_zeros3 (length (points ref)) (number_of_classes (multi_structure a) lbls)
                       (length subjects),
        mesh = ref, segmentation_image = bound\<rparr> = (evs1, Inr st1)"
    "average_figures c a level st1 = (evs2, Inr st)"
    "evs = evs1 @ evs2 @ [SaveStatistics level (statistics st)]"
  using assms
  by (auto simp add: run_level_def Let_def split: option.splits sum.splits prod.splits)

lemma np_zeros3_nth:
  "length (np_zeros3 n0 n1 n2) = n0"
  "n < n0 \<Longrightarrow> length (np_zeros3 n0 n1 n2 ! n) = n1"
  "n < n0 \<Longrightarrow> k < n1 \<Longrightarrow> length (np_zeros3 n0 n1 n2 ! n ! k) = n2"
  by (simp_all add: np_zeros3_def)

lemma snd_last_enumerate: "xs \<noteq> [] \<Longrightarrow> snd (last (enumerate n xs)) = last xs"
proof -
  assume ne: "xs \<noteq> []"
  then have "enumerate n xs \<noteq> []" by (cases xs) simp_all
  then have "last (enumerate n xs) = enumerate n xs ! (length xs - 1)"
    by (simp add: last_conv_nth)
  also have "\<dots> = (n + (length xs - 1), xs ! (length xs - 1))"
    using ne by (simp add: nth_enumerate_eq)
  finally show ?thesis using ne by (simp add: last_conv_nth)
qed

lemma mem_enumerate: "i < length xs \<Longrightarrow> (i, xs ! i) \<in> set (enumerate 0 xs)"
  by (simp add: in_set_enumerate_eq)

lemma np_mean_axis2_nth:
  "n < length stats \<Longrightarrow> k < length (stats ! n) \<Longrightarrow>
     np_mean_axis2 rounded_mean stats ! n ! k = np_mean rounded_mean (stats ! n ! k)"
  by (simp add: np_mean_axis2_def)

lemma run_level_invariant:
  assumes "run_level c a lbls subjects bound (level, file) = (evs, Inr st)"
  shows "\<exists>ref. reference_mesh c file = Some ref
    \<and> length (statistics st) = length (points ref)
    \<and> (\<forall>n < length (points ref).
          length (statistics st ! n) = number_of_classes (multi_structure a) lbls
          \<and> (\<forall>k < number_of_classes (multi_structure a) lbls.
                length (statistics st ! n ! k) = length subjects
                \<and> np_mean_axis2 (float_mean c) (statistics st) ! n ! k
                    = np_mean (float_mean c) (statistics st ! n ! k)))
    \<and> (\<forall>i < length subjects.
          \<exists>img m. fit_subject c a lbls level ref (subjects ! i) = Inr (img, m)
            \<and> (\<forall>n < length (points ref).
                  length (alphas m ! n) = number_of_classes (multi_structure a) lbls
                  \<and> (\<forall>k < number_of_classes (multi_structure a) lbls.
                        statistics st ! n ! k ! i = alphas m ! n ! k)))
    \<and> evs \<noteq> [] \<and> last evs = SaveStatistics level (statistics st)
    \<and> (show_figs a \<or> save_average_figs a \<longrightarrow> alphas (mesh st) = np_mean_axis2 (float_mean c) (statistics st))
    \<and> (\<not> show_figs a \<and> \<not> save_average_figs a \<and> subjects \<noteq> [] \<longrightarrow>
          (\<exists>img. fit_subject c a lbls level ref (last subjects) = Inr (img, mesh st)))
    \<and> (subjects \<noteq> [] \<or> save_average_figs a \<longrightarrow> save_figs a)"
proof -
  let ?C = "number_of_classes (multi_structure a) lbls"
  from assms obtain ref evs1 st1 evs2 where
    ref: "reference_mesh c file = Some ref" and
    loop: "subject_loop c a lbls level ref (enumerate 0 subjects)
       \<lparr>statistics = np_zeros3 (length (points ref)) ?C (length subjects),
        mesh = ref, segmentation_image = bound\<rparr> = (evs1, Inr st1)" and
    avg: "average_figures c a level st1 = (evs2, Inr st)" and
    evs: "evs = evs1 @ evs2 @ [SaveStatistics level (statistics st)]"
    by (rule run_level_Inr)
  let ?N = "length (points ref)"
  let ?Z = "np_zeros3 ?N ?C (length subjects)"
  let ?st0 = "\<lparr>statistics = ?Z, mesh = ref, segmentation_image = bound\<rparr>"
  have d: "distinct (map fst (enumerate 0 subjects))" by simp
  note inv = subject_loop_Inr [OF loop d]
  have invA: "shape_of (statistics st1) = shape_of ?Z"
    using inv [THEN conjunct1] by simp
  have invB: "\<And>i s. (i, s) \<in> set (enumerate 0 subjects) \<Longrightarrow>
          \<exists>img m. fit_subject c a lbls level ref s = Inr (img, m)
             \<and> (\<forall>n. n < length ?Z \<longrightarrow> length (alphas m ! n) = length (?Z ! n))
             \<and> (\<forall>n k. n < length ?Z \<longrightarrow> k < length (?Z ! n) \<longrightarrow>
                   i < length (?Z ! n ! k) \<longrightarrow>
                   statistics st1 ! n ! k ! i = alphas m ! n ! k)"
    using inv [THEN conjunct2, THEN conjunct1] by simp
  have invE: "enumerate 0 subjects \<noteq> [] \<Longrightarrow>
          \<exists>img. fit_subject c a lbls level ref (snd (last (enumerate 0 subjects))) = Inr (img, mesh st1)
             \<and> segmentation_image st1 = Some img"
    using inv [THEN conjunct2, THEN conjunct2, THEN conjunct2, THEN conjunct2] by simp
  have same: "statistics st = statistics st1" using avg by (rule average_figures_Inr(1))
  have sh: "shape_of (statistics st) = shape_of ?Z" using invA same by simp
  have len: "length (statistics st) = ?N"
    using shape_of_length[OF sh] by (simp add: np_zeros3_nth)
  have row: "\<And>n. n < ?N \<Longrightarrow> length (statistics st ! n) = ?C"
    using shape_of_row[OF sh] by (simp add: np_zeros3_nth)
  have cell: "\<And>n k. n < ?N \<Longrightarrow> k < ?C \<Longrightarrow> length (statistics st ! n ! k) = length subjects"
    using shape_of_cell[OF sh] by (simp add: np_zeros3_nth)
  have shape: "\<forall>n < ?N. length (statistics st ! n) = ?C
          \<and> (\<forall>k < ?C. length (statistics st ! n ! k) = length subjects
                \<and> np_mean_axis2 (float_mean c) (statistics st) ! n ! k
                    = np_mean (float_mean c) (statistics st ! n ! k))"
    using len row cell by (simp add: np_mean_axis2_nth)
  have stored: "\<forall>i < length subjects.
          \<exists>img m. fit_subject c a lbls level ref (subjects ! i) = Inr (img, m)
            \<and> (\<forall>n < ?N. length (alphas m ! n) = ?C
                  \<and> (\<forall>k < ?C. statistics st ! n ! k ! i = alphas m ! n ! k))"
  proof (intro allI impI)
    fix i assume i: "i < length subjects"
    then have "(i, subjects ! i) \<in> set (enumerate 0 subjects)" by (rule mem_enumerate)
    from invB [OF this] obtain img m where
      f: "fit_subject c a lbls level ref (subjects ! i) = Inr (img, m)" and
      r: "\<forall>n. n < length ?Z \<longrightarrow> length (alphas m ! n) = length (?Z ! n)" and
      e: "\<forall>n k. n < length ?Z \<longrightarrow> k < length (?Z ! n) \<longrightarrow> i < length (?Z ! n ! k) \<longrightarrow>
            statistics st1 ! n ! k ! i = alphas m ! n ! k"
      by blast
    have "\<forall>n < ?N. length (alphas m ! n) = ?C
                  \<and> (\<forall>k < ?C. statistics st ! n ! k ! i = alphas m ! n ! k)"
      using e r i by (simp add: np_zeros3_nth same)
    then show "\<exists>img m. fit_subject c a lbls level ref (subjects ! i) = Inr (img, m)
            \<and> (\<forall>n < ?N. length (alphas m ! n) = ?C
                  \<and> (\<forall>k < ?C. statistics st ! n ! k ! i = alphas m ! n ! k))"
      using f by blast
  qed
  have mean: "show_figs a \<or> save_average_figs a \<longrightarrow> alphas (mesh st) = np_mean_axis2 (float_mean c) (statistics st)"
    using average_figures_Inr(3)[OF avg] same by simp
  have lastm: "\<not> show_figs a \<and> \<not> save_average_figs a \<and> subjects \<noteq> [] \<longrightarrow>
          (\<exists>img. fit_subject c a lbls level ref (last subjects) = Inr (img, mesh st))"
  proof (intro impI)
    assume h: "\<not> show_figs a \<and> \<not> save_average_figs a \<and> subjects \<noteq> []"
    then have eq: "st = st1" using average_figures_Inr(5)[OF avg] by simp
    have "enumerate 0 subjects \<noteq> []" using h by (cases subjects) simp_all
    from invE [OF this] obtain img where
      "fit_subject c a lbls level ref (snd (last (enumerate 0 subjects))) = Inr (img, mesh st)"
      unfolding eq by blast
    then show "\<exists>img. fit_subject c a lbls level ref (last subjects) = Inr (img, mesh st)"
      using h by (auto simp add: snd_last_enumerate)
  qed
  have ev: "evs \<noteq> [] \<and> last evs = SaveStatistics level (statistics st)"
    by (simp add: evs)
  have figs: "subjects \<noteq> [] \<or> save_average_figs a \<longrightarrow> save_figs a"
  proof (intro impI)
    assume "subjects \<noteq> [] \<or> save_average_figs a"
    then show "save_figs a"
    proof
      assume "subjects \<noteq> []"
      then have "0 < length subjects" by simp
      with stored obtain img m where
        "fit_subject c a lbls level ref (subjects ! 0) = Inr (img, m)" by blast
      then show ?thesis by (rule fit_subject_save_figs)
    next
      assume "save_average_figs a"
      then show ?thesis by (rule average_figures_Inr(6)[OF avg])
    qed
  qed
  show ?thesis
    by (intro exI [of _ ref] conjI) (use ref len shape stored ev mean lastm figs in simp_all)
qed

subsection \<open>Sums of means\<close>

lemma those_map_Some: "those (map Some rs) = Some rs"
  by (induction rs) simp_all

lemma those_eq_Some: "those xs = Some rs \<Longrightarrow> xs = map Some rs"
proof (induction xs arbitrary: rs)
  case Nil
  then show ?case by simp
next
  case (Cons x xs)
  then show ?case by (auto split: option.splits)
qed

lemma sums_to_one_within_iff:
  "sums_to_one_within t row \<longleftrightarrow> (\<exists>rs. row = map Some rs \<and> \<bar>sum_list rs - 1\<bar> \<le> t)"
proof
  assume "sums_to_one_within t row"
  then obtain rs where "those row = Some rs" "\<bar>sum_list rs - 1\<bar> \<le> t"
    by (auto simp add: sums_to_one_within_def split: option.splits)
  then show "\<exists>rs. row = map Some rs \<and> \<bar>sum_list rs - 1\<bar> \<le> t"
    using those_eq_Some by blast
next
  assume "\<exists>rs. row = map Some rs \<and> \<bar>sum_list rs - 1\<bar> \<le> t"
  then show "sums_to_one_within t row"
    by (auto simp add: sums_to_one_within_def those_map_Some)
qed

lemma np_mean_map_Some:
  "rs \<noteq> [] \<Longrightarrow> np_mean rounded_mean (map Some rs) = Some (rounded_mean rs)"
  by (simp add: np_mean_def those_map_Some)

lemma np_mean_Nil: "np_mean rounded_mean [] = None"
  by (simp add: np_mean_def)

lemma mean_rows_sum_within:
  fixes t e :: real
  assumes S: "0 < S" and len: "\<forall>k < length rows. length (rows ! k) = S"
    and cols: "\<forall>i < S. sums_to_one_within t (map (\<lambda>cell. cell ! i) rows)"
    and acc: "\<forall>k < length rows. \<forall>rs. rows ! k = map Some rs \<longrightarrow>
               \<bar>rounded_mean rs - arithmetic_mean rs\<bar> \<le> e"
  shows "sums_to_one_within (t + real (length rows) * e) (map (np_mean rounded_mean) rows)"
proof -
  let ?C = "length rows"
  define R where "R = (\<lambda>k i. the (rows ! k ! i))"
  define row where "row = (\<lambda>k. map (R k) [0..<S])"
  have entry: "\<And>k i. k < ?C \<Longrightarrow> i < S \<Longrightarrow> rows ! k ! i = Some (R k i)"
  proof -
    fix k i assume k: "k < ?C" and i: "i < S"
    from cols i obtain rs where rs: "map (\<lambda>cell. cell ! i) rows = map Some rs"
      by (auto simp add: sums_to_one_within_iff)
    then have "map (\<lambda>cell. cell ! i) rows ! k = map Some rs ! k" by simp
    moreover have "length rs = ?C" using arg_cong[OF rs, of length] by simp
    ultimately have "rows ! k ! i = Some (rs ! k)" using k by simp
    then show "rows ! k ! i = Some (R k i)" by (simp add: R_def)
  qed
  have col: "\<And>i. i < S \<Longrightarrow> \<bar>(\<Sum>k = 0..<?C. R k i) - 1\<bar> \<le> t"
  proof -
    fix i assume i: "i < S"
    from cols i obtain rs where rs: "map (\<lambda>cell. cell ! i) rows = map Some rs"
      and b: "\<bar>sum_list rs - 1\<bar> \<le> t"
      by (auto simp add: sums_to_one_within_iff)
    have l: "length rs = ?C" using arg_cong[OF rs, of length] by simp
    have "rs = map (\<lambda>k. R k i) [0..<?C]"
    proof (rule nth_equalityI)
      show "length rs = length (map (\<lambda>k. R k i) [0..<?C])" using l by simp
    next
      fix k assume "k < length rs"
      then have k: "k < ?C" using l by simp
      have "map (\<lambda>cell. cell ! i) rows ! k = map Some rs ! k" using rs by simp
      then have "rows ! k ! i = Some (rs ! k)" using k l by simp
      then have "rs ! k = R k i" using entry[OF k i] by simp
      then show "rs ! k = map (\<lambda>k. R k i) [0..<?C] ! k" using k by simp
    qed
    then have "sum_list rs = sum_list (map (\<lambda>k. R k i) [0..<?C])" by simp
    also have "\<dots> = (\<Sum>k = 0..<?C. R k i)"
      by (simp add: interv_sum_list_conv_sum_set_nat)
    finally have "sum_list rs = (\<Sum>k = 0..<?C. R k i)" .
    then show "\<bar>(\<Sum>k = 0..<?C. R k i) - 1\<bar> \<le> t" using b by simp
  qed
  have rowk: "\<And>k. k < ?C \<Longrightarrow> rows ! k = map Some (row k)"
  proof -
    fix k assume k: "k < ?C"
    have l: "length (rows ! k) = S" using len k by simp
    show "rows ! k = map Some (row k)"
    proof (rule nth_equalityI)
      show "length (rows ! k) = length (map Some (row k))" using l by (simp add: row_def)
    next
      fix i assume "i < length (rows ! k)"
      then have i: "i < S" using l by simp
      show "rows ! k ! i = map Some (row k) ! i"
        using entry[OF k i] i by (simp add: row_def)
    qed
  qed
  have ne: "\<And>k. row k \<noteq> []" using S by (simp add: row_def)
  have mean: "\<And>k. k < ?C \<Longrightarrow> np_mean rounded_mean (rows ! k) = Some (rounded_mean (row k))"
    using rowk ne by (simp add: np_mean_map_Some)
  have close: "\<And>k. k < ?C \<Longrightarrow>
      \<bar>rounded_mean (row k) - (\<Sum>i = 0..<S. R k i) / real S\<bar> \<le> e"
  proof -
    fix k assume k: "k < ?C"
    have "\<bar>rounded_mean (row k) - arithmetic_mean (row k)\<bar> \<le> e"
      using acc k rowk[OF k] by blast
    moreover have "arithmetic_mean (row k) = (\<Sum>i = 0..<S. R k i) / real S"
      by (simp add: arithmetic_mean_def row_def interv_sum_list_conv_sum_set_nat)
    ultimately show "\<bar>rounded_mean (row k) - (\<Sum>i = 0..<S. R k i) / real S\<bar> \<le> e" by simp
  qed
  have all: "map (np_mean rounded_mean) rows = map Some (map (\<lambda>k. rounded_mean (row k)) [0..<?C])"
    using mean by (intro nth_equalityI) simp_all
  have total: "sum_list (map (\<lambda>k. rounded_mean (row k)) [0..<?C])
      = (\<Sum>k = 0..<?C. rounded_mean (row k))"
    by (simp add: interv_sum_list_conv_sum_set_nat)
  have exact: "(\<Sum>k = 0..<?C. (\<Sum>i = 0..<S. R k i) / real S) - 1
      = (\<Sum>i = 0..<S. (\<Sum>k = 0..<?C. R k i) - 1) / real S"
  proof -
    have "(\<Sum>k = 0..<?C. (\<Sum>i = 0..<S. R k i) / real S)
        = (\<Sum>k = 0..<?C. \<Sum>i = 0..<S. R k i) / real S"
      by (simp add: sum_divide_distrib)
    also have "(\<Sum>k = 0..<?C. \<Sum>i = 0..<S. R k i) = (\<Sum>i = 0..<S. \<Sum>k = 0..<?C. R k i)"
      by (rule sum.swap)
    finally have "(\<Sum>k = 0..<?C. (\<Sum>i = 0..<S. R k i) / real S) - 1
        = ((\<Sum>i = 0..<S. \<Sum>k = 0..<?C. R k i) - real S) / real S"
      using S by (simp add: field_simps)
    also have "(\<Sum>i = 0..<S. \<Sum>k = 0..<?C. R k i) - real S
        = (\<Sum>i = 0..<S. (\<Sum>k = 0..<?C. R k i) - 1)"
      by (simp add: sum_subtractf)
    finally show ?thesis .
  qed
  have b1: "\<bar>(\<Sum>k = 0..<?C. (\<Sum>i = 0..<S. R k i) / real S) - 1\<bar> \<le> t"
  proof -
    have "\<bar>\<Sum>i = 0..<S. (\<Sum>k = 0..<?C. R k i) - 1\<bar> \<le> (\<Sum>i = 0..<S. \<bar>(\<Sum>k = 0..<?C. R k i) - 1\<bar>)"
      by (rule sum_abs)
    also have "\<dots> \<le> (\<Sum>i = 0..<S. t)"
      by (rule sum_mono) (simp add: col)
    finally have "\<bar>\<Sum>i = 0..<S. (\<Sum>k = 0..<?C. R k i) - 1\<bar> \<le> real S * t" by simp
    then have "\<bar>\<Sum>i = 0..<S. (\<Sum>k = 0..<?C. R k i) - 1\<bar> / real S \<le> t"
      using S by (simp add: field_simps)
    then show ?thesis using S by (simp only: exact abs_divide)
  qed
  have b2: "\<bar>(\<Sum>k = 0..<?C. rounded_mean (row k)) - (\<Sum>k = 0..<?C. (\<Sum>i = 0..<S. R k i) / real S)\<bar>
      \<le> real ?C * e"
  proof -
    have "(\<Sum>k = 0..<?C. rounded_mean (row k)) - (\<Sum>k = 0..<?C. (\<Sum>i = 0..<S. R k i) / real S)
        = (\<Sum>k = 0..<?C. rounded_mean (row k) - (\<Sum>i = 0..<S. R k i) / real S)"
      by (simp add: sum_subtractf)
    also have "\<bar>\<dots>\<bar> \<le> (\<Sum>k = 0..<?C. \<bar>rounded_mean (row k) - (\<Sum>i = 0..<S. R k i) / real S\<bar>)"
      by (rule sum_abs)
    also have "\<dots> \<le> (\<Sum>k = 0..<?C. e)"
      by (rule sum_mono) (simp add: close)
    finally show ?thesis by simp
  qed
  have "\<bar>(\<Sum>k = 0..<?C. rounded_mean (row k)) - 1\<bar> \<le> t + real ?C * e"
    using b1 b2 by linarith
  then have "\<bar>sum_list (map (\<lambda>k. rounded_mean (row k)) [0..<?C]) - 1\<bar> \<le> t + real ?C * e"
    by (simp only: total)
  then show ?thesis
    unfolding sums_to_one_within_iff using all by blast
qed

subsection \<open>The accumulator of a level\<close>

text \<open>
  Claim C5, as amended. A level that completes has read its reference mesh, and its
  accumulator has the shape [nodes, classes, subjects]. For every subject \<open>i\<close> the fit of
  that subject succeeded, its alphas have one entry per class at every node, and they
  are stored at subject index \<open>i\<close>. The last thing the level writes is that accumulator,
  unreduced. The mean over the subject axis, each entry numpy's mean of the subject's
  values with no renormalisation, becomes the mesh's alphas only when \<open>show_figs\<close> or
  \<open>save_average_figs\<close> is set; otherwise the mesh keeps the alphas of the last subject. A
  level with a subject, or with \<open>save_average_figs\<close>, completes only under \<open>save_figs\<close>,
  the flag that binds \<open>nib\<close> in main.
\<close>

theorem atlas_aggregator_level:
  assumes "run_level c a lbls subjects bound (level, file) = (evs, Inr st)"
  shows "\<exists>ref. reference_mesh c file = Some ref
    \<and> length (statistics st) = length (points ref)
    \<and> (\<forall>n < length (points ref).
          length (statistics st ! n) = number_of_classes (multi_structure a) lbls
          \<and> (\<forall>k < number_of_classes (multi_structure a) lbls.
                length (statistics st ! n ! k) = length subjects
                \<and> np_mean_axis2 (float_mean c) (statistics st) ! n ! k
                    = np_mean (float_mean c) (statistics st ! n ! k)))
    \<and> (\<forall>i < length subjects.
          \<exists>img m. fit_subject c a lbls level ref (subjects ! i) = Inr (img, m)
            \<and> (\<forall>n < length (points ref).
                  length (alphas m ! n) = number_of_classes (multi_structure a) lbls
                  \<and> (\<forall>k < number_of_classes (multi_structure a) lbls.
                        statistics st ! n ! k ! i = alphas m ! n ! k)))
    \<and> evs \<noteq> [] \<and> last evs = SaveStatistics level (statistics st)
    \<and> (show_figs a \<or> save_average_figs a \<longrightarrow> alphas (mesh st) = np_mean_axis2 (float_mean c) (statistics st))
    \<and> (\<not> show_figs a \<and> \<not> save_average_figs a \<and> subjects \<noteq> [] \<longrightarrow>
          (\<exists>img. fit_subject c a lbls level ref (last subjects) = Inr (img, mesh st)))
    \<and> (subjects \<noteq> [] \<or> save_average_figs a \<longrightarrow> save_figs a)"
  using assms by (rule run_level_invariant)

subsection \<open>The mean over the subjects\<close>

text \<open>
  Claim C6, as amended. For a level that completes with at least one subject and a node
  of its mesh: when the alphas of every subject add up to 1 within a tolerance \<open>t\<close> at
  every node, and each of the node's computed means is within \<open>e\<close> of the arithmetic mean
  of the values it averages, the means of the node add up to 1 within \<open>t\<close> plus the number
  of classes times \<open>e\<close>; so do the mesh's alphas once the mean has been assigned to them.
  With both tolerances 0 the sum is exactly 1.
\<close>

theorem aggregator_mean_sums_to_one:
  fixes t e :: real
  assumes run: "run_level c a lbls subjects bound (level, file) = (evs, Inr st)"
    and ref: "reference_mesh c file = Some ref"
    and ne: "subjects \<noteq> []"
    and one: "\<forall>i < length subjects. \<forall>img m.
        fit_subject c a lbls level ref (subjects ! i) = Inr (img, m) \<longrightarrow>
          (\<forall>n < length (points ref). sums_to_one_within t (alphas m ! n))"
    and acc: "\<forall>k < number_of_classes (multi_structure a) lbls. \<forall>rs.
        statistics st ! n ! k = map Some rs \<longrightarrow>
          \<bar>float_mean c rs - arithmetic_mean rs\<bar> \<le> e"
    and n: "n < length (points ref)"
  shows "sums_to_one_within (t + real (number_of_classes (multi_structure a) lbls) * e)
           (np_mean_axis2 (float_mean c) (statistics st) ! n)
       \<and> (show_figs a \<or> save_average_figs a \<longrightarrow>
            sums_to_one_within (t + real (number_of_classes (multi_structure a) lbls) * e)
              (alphas (mesh st) ! n))"
proof -
  let ?C = "number_of_classes (multi_structure a) lbls"
  let ?S = "length subjects"
  let ?rows = "statistics st ! n"
  from run_level_invariant [OF run] ref have
    len: "length (statistics st) = length (points ref)" and
    shape: "\<forall>n < length (points ref). length (statistics st ! n) = ?C
          \<and> (\<forall>k < ?C. length (statistics st ! n ! k) = ?S
                \<and> np_mean_axis2 (float_mean c) (statistics st) ! n ! k
                    = np_mean (float_mean c) (statistics st ! n ! k))" and
    stored: "\<forall>i < ?S. \<exists>img m. fit_subject c a lbls level ref (subjects ! i) = Inr (img, m)
            \<and> (\<forall>n < length (points ref). length (alphas m ! n) = ?C
                  \<and> (\<forall>k < ?C. statistics st ! n ! k ! i = alphas m ! n ! k))" and
    mean: "show_figs a \<or> save_average_figs a \<longrightarrow>
             alphas (mesh st) = np_mean_axis2 (float_mean c) (statistics st)"
    by simp_all
  have rowlen: "length ?rows = ?C" using shape n by simp
  have celllen: "\<forall>k < length ?rows. length (?rows ! k) = ?S" using shape n by simp
  have S: "0 < ?S" using ne by simp
  have cols: "\<forall>i < ?S. sums_to_one_within t (map (\<lambda>cell. cell ! i) ?rows)"
  proof (intro allI impI)
    fix i assume i: "i < ?S"
    from stored i obtain img m where
      f: "fit_subject c a lbls level ref (subjects ! i) = Inr (img, m)" and
      e: "\<forall>n < length (points ref). length (alphas m ! n) = ?C
                  \<and> (\<forall>k < ?C. statistics st ! n ! k ! i = alphas m ! n ! k)"
      by blast
    have "map (\<lambda>cell. cell ! i) ?rows = alphas m ! n"
      using e n rowlen by (intro nth_equalityI) simp_all
    moreover have "sums_to_one_within t (alphas m ! n)" using one i f n by blast
    ultimately show "sums_to_one_within t (map (\<lambda>cell. cell ! i) ?rows)" by simp
  qed
  have acc': "\<forall>k < length ?rows. \<forall>rs. ?rows ! k = map Some rs \<longrightarrow>
               \<bar>float_mean c rs - arithmetic_mean rs\<bar> \<le> e"
    using acc rowlen by simp
  have "sums_to_one_within (t + real (length ?rows) * e) (map (np_mean (float_mean c)) ?rows)"
    using S celllen cols acc' by (rule mean_rows_sum_within)
  moreover have "np_mean_axis2 (float_mean c) (statistics st) ! n = map (np_mean (float_mean c)) ?rows"
    using n len by (simp add: np_mean_axis2_def)
  ultimately have "sums_to_one_within (t + real ?C * e)
      (np_mean_axis2 (float_mean c) (statistics st) ! n)"
    using rowlen by simp
  then show ?thesis using mean by simp
qed

subsection \<open>Evaluating the small run\<close>

lemma funpow_two: "(f ^^ 2) x = f (f x)"
  by (simp add: numeral_2_eq_2)

lemmas example_eval = fit_subject_def load_segmentation_image_def
      example_collaborators_def example_args_def default_args_def
      segmentation_path_def history_path_def example_history_def example_mesh_def
      deformation_applier_def getMesh_def add_cropping_def crop_offset_def padd_def fadd_def
      label_encoder_def encode_binary_def zeros_like_def set_channel_def f64_to_u16_def
      fit_alphas_def em_loop_funpow uniform_alphas_def number_of_classes_def fdiv_def
      example_em_step_def voxel_def replicate_two Let_def funpow_two

lemma example_fit_s1:
  "fit_subject example_collaborators example_args [1] 0 example_mesh ''s1''
   = Inr ([[[0]]], \<lparr>points = [(Some 0, Some 0, Some 0)], alphas = [[Some 1, Some 0]]\<rparr>)"
  by (simp add: example_eval)

lemma example_fit_s2:
  "fit_subject example_collaborators example_args [1] 0 example_mesh ''s2''
   = Inr ([[[1]]], \<lparr>points = [(Some 0, Some 0, Some 0)], alphas = [[Some 0, Some 1]]\<rparr>)"
  by (simp add: example_eval)

lemma fit_subject_save_average_figs:
  "fit_subject c (a\<lparr>save_average_figs := b\<rparr>) lbls level ref s = fit_subject c a lbls level ref s"
  by (simp add: fit_subject_def load_segmentation_image_def segmentation_path_def history_path_def
      cong: option.case_cong sum.case_cong if_cong)

lemma fit_subject_without_save_figs:
  "segmentations_dir a \<noteq> None \<Longrightarrow>
   fit_subject c (a\<lparr>save_figs := False\<rparr>) lbls level ref s = Inl UnboundLocalError"
  by (auto simp add: fit_subject_def load_segmentation_image_def)

lemma example_facts:
  "reference_mesh example_collaborators ''atlas_level1.txt.gz'' = Some example_mesh"
  "show_figs example_args = False" "save_figs example_args = True"
  "save_average_figs example_args = False" "multi_structure example_args = False"
  "length (points example_mesh) = 1"
  "rasterize example_collaborators = (\<lambda>m shape. [])"
  "float_mean example_collaborators = arithmetic_mean"
  "segmentations_dir example_args \<noteq> None"
  by (simp_all add: example_collaborators_def example_args_def default_args_def example_mesh_def)

lemma enumerate_two: "enumerate 0 [x, y] = [(0, x), (1, y)]"
  by simp

lemmas level_eval = run_level_def example_facts enumerate_two example_fit_s1 example_fit_s2
  fit_subject_save_average_figs number_of_classes_def np_zeros3_def store_subject_def replicate_two
  subject_figures_def average_figures_def average_prior_def np_mean_axis2_def np_mean_def
  arithmetic_mean_def rasterized_prior_def map3_def Let_def

lemma example_level:
  "run_level example_collaborators example_args [1] [''s1'', ''s2''] None (0, ''atlas_level1.txt.gz'')
  = ([SubjectStart 0 0 ''s1'', SaveFigure 0 0 [], SubjectStart 0 1 ''s2'', SaveFigure 0 1 [],
      SaveStatistics 0 [[[Some 1, Some 0], [Some 0, Some 1]]]],
     Inr \<lparr>statistics = [[[Some 1, Some 0], [Some 0, Some 1]]],
          mesh = \<lparr>points = [(Some 0, Some 0, Some 0)], alphas = [[Some 0, Some 1]]\<rparr>,
          segmentation_image = Some [[[1]]]\<rparr>)"
  by (simp add: level_eval del: enumerate_simps)

lemma example_level_average:
  "run_level example_collaborators (example_args\<lparr>save_average_figs := True\<rparr>) [1] [''s1'', ''s2'']
     None (0, ''atlas_level1.txt.gz'')
  = ([SubjectStart 0 0 ''s1'', SaveFigure 0 0 [], SubjectStart 0 1 ''s2'', SaveFigure 0 1 [],
      SaveAverageFigure 0 [],
      SaveStatistics 0 [[[Some 1, Some 0], [Some 0, Some 1]]]],
     Inr \<lparr>statistics = [[[Some 1, Some 0], [Some 0, Some 1]]],
          mesh = \<lparr>points = [(Some 0, Some 0, Some 0)], alphas = [[Some (1 / 2), Some (1 / 2)]]\<rparr>,
          segmentation_image = Some [[[1]]]\<rparr>)"
  by (simp add: level_eval del: enumerate_simps)

lemma example_level_average_no_subjects:
  "run_level example_collaborators (example_args\<lparr>save_average_figs := True\<rparr>) [1] []
     None (0, ''atlas_level1.txt.gz'') = ([], Inl UnboundLocalError)"
  by (simp add: level_eval)

lemma example_level_no_subjects:
  "run_level example_collaborators example_args [1] [] None (0, ''atlas_level1.txt.gz'')
  = ([SaveStatistics 0 [[[], []]]],
     Inr \<lparr>statistics = [[[], []]], mesh = example_mesh, segmentation_image = None\<rparr>)"
  by (simp add: level_eval)

text \<open>Without \<open>--save-figs\<close> the same run ends at its first subject.\<close>

lemma example_level_without_save_figs:
  "run_level example_collaborators (example_args\<lparr>save_figs := False\<rparr>) [1] [''s1'', ''s2'']
     None (0, ''atlas_level1.txt.gz'')
  = ([SubjectStart 0 0 ''s1''], Inl UnboundLocalError)"
  by (simp add: run_level_def example_facts enumerate_two fit_subject_without_save_figs
      del: enumerate_simps)

subsection \<open>The small run\<close>

text \<open>
  The small run with \<open>save_average_figs\<close> set: the accumulator holds the alphas of the two
  subjects, and the mesh ends with their mean.
\<close>

theorem atlas_aggregator_level_witness:
  "run_level example_collaborators (example_args\<lparr>save_average_figs := True\<rparr>) [1] [''s1'', ''s2'']
     None (0, ''atlas_level1.txt.gz'')
    = ([SubjectStart 0 0 ''s1'', SaveFigure 0 0 [], SubjectStart 0 1 ''s2'', SaveFigure 0 1 [],
        SaveAverageFigure 0 [],
        SaveStatistics 0 [[[Some 1, Some 0], [Some 0, Some 1]]]],
       Inr \<lparr>statistics = [[[Some 1, Some 0], [Some 0, Some 1]]],
            mesh = \<lparr>points = [(Some 0, Some 0, Some 0)], alphas = [[Some (1 / 2), Some (1 / 2)]]\<rparr>,
            segmentation_image = Some [[[1]]]\<rparr>)
   \<and> save_average_figs (example_args\<lparr>save_average_figs := True\<rparr>)
   \<and> save_figs (example_args\<lparr>save_average_figs := True\<rparr>)
   \<and> np_mean_axis2 (float_mean example_collaborators) [[[Some 1, Some 0], [Some 0, Some 1]]]
       = [[Some (1 / 2), Some (1 / 2)]]"
proof -
  let ?a = "example_args\<lparr>save_average_figs := True\<rparr>"
  let ?st = "\<lparr>statistics = [[[Some 1, Some 0], [Some 0, Some 1]]],
            mesh = \<lparr>points = [(Some 0, Some 0, Some 0)], alphas = [[Some (1 / 2), Some (1 / 2)]]\<rparr>,
            segmentation_image = Some [[[1]]]\<rparr>"
  have f: "save_average_figs ?a" by simp
  from atlas_aggregator_level [OF example_level_average] f
  have "alphas (mesh ?st) = np_mean_axis2 (float_mean example_collaborators) (statistics ?st)"
    and s: "save_figs ?a"
    by blast+
  then have "np_mean_axis2 (float_mean example_collaborators) [[[Some 1, Some 0], [Some 0, Some 1]]]
      = [[Some (1 / 2), Some (1 / 2)]]"
    by simp
  then show ?thesis using example_level_average f s by blast
qed

text \<open>
  Claim C5 as stated fails without the flags of the average: the small run, which has
  \<open>--save-figs\<close> only, saves the accumulator with both subjects in it, the mean is never
  computed, and the mesh ends with the alphas of the last subject, which are not the
  mean.
\<close>

theorem atlas_aggregator_level_counterexample:
  "run_level example_collaborators example_args [1] [''s1'', ''s2''] None (0, ''atlas_level1.txt.gz'')
    = ([SubjectStart 0 0 ''s1'', SaveFigure 0 0 [], SubjectStart 0 1 ''s2'', SaveFigure 0 1 [],
        SaveStatistics 0 [[[Some 1, Some 0], [Some 0, Some 1]]]],
       Inr \<lparr>statistics = [[[Some 1, Some 0], [Some 0, Some 1]]],
            mesh = \<lparr>points = [(Some 0, Some 0, Some 0)], alphas = [[Some 0, Some 1]]\<rparr>,
            segmentation_image = Some [[[1]]]\<rparr>)
   \<and> save_figs example_args
   \<and> spec_level_atlas [[[Some 1, Some 0], [Some 0, Some 1]]] = [[Some (1 / 2), Some (1 / 2)]]
   \<and> [[Some 0, Some 1]] \<noteq> spec_level_atlas [[[Some 1, Some 0], [Some 0, Some 1]]]"
  by (simp add: example_level example_facts spec_level_atlas_def np_mean_def arithmetic_mean_def)

text \<open>
  In the small run the alphas of both subjects add up to 1 and the means are formed
  without rounding, so the means add up to 1 within any tolerance.
\<close>

theorem aggregator_mean_sums_to_one_witness:
  "run_level example_collaborators example_args [1] [''s1'', ''s2''] None (0, ''atlas_level1.txt.gz'')
    = ([SubjectStart 0 0 ''s1'', SaveFigure 0 0 [], SubjectStart 0 1 ''s2'', SaveFigure 0 1 [],
        SaveStatistics 0 [[[Some 1, Some 0], [Some 0, Some 1]]]],
       Inr \<lparr>statistics = [[[Some 1, Some 0], [Some 0, Some 1]]],
            mesh = \<lparr>points = [(Some 0, Some 0, Some 0)], alphas = [[Some 0, Some 1]]\<rparr>,
            segmentation_image = Some [[[1]]]\<rparr>)
   \<and> [''s1'', ''s2''] \<noteq> []
   \<and> sums_to_one_within (1 / 1000000) [Some 1, Some 0]
   \<and> sums_to_one_within (1 / 1000000) [Some 0, Some 1]
   \<and> \<bar>float_mean example_collaborators [1, 0] - arithmetic_mean [1, 0]\<bar> \<le> 1 / 1000000
   \<and> \<bar>float_mean example_collaborators [0, 1] - arithmetic_mean [0, 1]\<bar> \<le> 1 / 1000000
   \<and> sums_to_one_within (1 / 1000000 + 2 * (1 / 1000000))
         (np_mean_axis2 (float_mean example_collaborators)
            [[[Some 1, Some 0], [Some 0, Some 1]]] ! 0)"
proof -
  let ?st = "\<lparr>statistics = [[[Some 1, Some 0], [Some 0, Some 1]]],
            mesh = \<lparr>points = [(Some 0, Some 0, Some 0)], alphas = [[Some 0, Some 1]]\<rparr>,
            segmentation_image = Some [[[1 :: int]]]\<rparr>"
  let ?t = "1 / 1000000 :: real"
  have ref: "reference_mesh example_collaborators ''atlas_level1.txt.gz'' = Some example_mesh"
    by (rule example_facts(1))
  have ne: "[''s1'', ''s2''] \<noteq> []" by simp
  have s1: "sums_to_one_within ?t [Some 1, Some 0]" and s2: "sums_to_one_within ?t [Some 0, Some 1]"
    by (simp_all add: sums_to_one_within_def)
  have m1: "\<bar>float_mean example_collaborators [1, 0] - arithmetic_mean [1, 0]\<bar> \<le> ?t"
    and m2: "\<bar>float_mean example_collaborators [0, 1] - arithmetic_mean [0, 1]\<bar> \<le> ?t"
    by (simp_all add: example_facts)
  have one: "\<forall>i < length [''s1'', ''s2'']. \<forall>img m.
        fit_subject example_collaborators example_args [1] 0 example_mesh ([''s1'', ''s2''] ! i)
          = Inr (img, m) \<longrightarrow>
          (\<forall>n < length (points example_mesh). sums_to_one_within ?t (alphas m ! n))"
  proof (intro allI impI)
    fix i img m n
    assume i: "i < length [''s1'', ''s2'']"
      and f: "fit_subject example_collaborators example_args [1] 0 example_mesh ([''s1'', ''s2''] ! i)
          = Inr (img, m)"
      and n: "n < length (points example_mesh)"
    have n0: "n = 0" using n by (simp add: example_facts)
    from i have "i = 0 \<or> i = 1" by auto
    then show "sums_to_one_within ?t (alphas m ! n)"
    proof
      assume "i = 0"
      then have "alphas m = [[Some 1, Some 0]]" using f by (auto simp add: example_fit_s1)
      then show ?thesis using s1 n0 by simp
    next
      assume "i = 1"
      then have "alphas m = [[Some 0, Some 1]]" using f by (auto simp add: example_fit_s2)
      then show ?thesis using s2 n0 by simp
    qed
  qed
  have acc: "\<forall>k < number_of_classes (multi_structure example_args) [1]. \<forall>rs.
        statistics ?st ! 0 ! k = map Some rs \<longrightarrow>
          \<bar>float_mean example_collaborators rs - arithmetic_mean rs\<bar> \<le> ?t"
    by (simp add: example_facts)
  have n: "0 < length (points example_mesh)" by (simp add: example_facts)
  have c: "real (number_of_classes (multi_structure example_args) [1]) = 2"
    by (simp add: number_of_classes_def example_facts)
  from aggregator_mean_sums_to_one [OF example_level ref ne one acc n]
  have "sums_to_one_within (?t + real (number_of_classes (multi_structure example_args) [1]) * ?t)
           (np_mean_axis2 (float_mean example_collaborators) (statistics ?st) ! 0)"
    by blast
  then have "sums_to_one_within (?t + 2 * ?t)
           (np_mean_axis2 (float_mean example_collaborators)
              [[[Some 1, Some 0], [Some 0, Some 1]]] ! 0)"
    by (simp only: c) simp
  then show ?thesis using example_level ne s1 s2 m1 m2 by blast
qed

text \<open>
  Claim C6 as stated fails for no subjects at all: the accumulator of the small run has
  an empty subject axis, its mean is NaN in every entry, and the means of a node add up
  to 1 within no tolerance. With \<open>save_average_figs\<close> set, main computes that mean and
  then fails on the unbound \<open>segmentation_image\<close>.
\<close>

theorem aggregator_mean_sums_to_one_counterexample:
  "run_level example_collaborators example_args [1] [] None (0, ''atlas_level1.txt.gz'')
    = ([SaveStatistics 0 [[[], []]]],
       Inr \<lparr>statistics = [[[], []]], mesh = example_mesh, segmentation_image = None\<rparr>)
   \<and> np_mean_axis2 (float_mean example_collaborators) [[[], []]] = [[None, None]]
   \<and> (\<forall>t. \<not> sums_to_one_within t
              (np_mean_axis2 (float_mean example_collaborators) [[[], []]] ! 0))
   \<and> run_level example_collaborators (example_args\<lparr>save_average_figs := True\<rparr>) [1] []
         None (0, ''atlas_level1.txt.gz'') = ([], Inl UnboundLocalError)"
  by (simp add: example_level_no_subjects example_level_average_no_subjects
      np_mean_axis2_def np_mean_def sums_to_one_within_def)

section \<open>Properties of main\<close>

subsection \<open>Missing labels\<close>

text \<open>
  Claim C10. When neither \<open>--labels\<close> nor \<open>--labels_file\<close> is given, main ends with an
  exception and without having processed any subject, in binary mode as well as in
  multi-structure mode: once the subjects have been listed, it writes the log header
  and \<open>subjects.txt\<close>, opens \<open>labels.txt\<close> and raises \<open>TypeError\<close> on iterating over
  \<open>None\<close>. (When the subjects cannot be listed, that error ends the run earlier.)
\<close>

theorem main_without_labels:
  assumes "labels a = None" and "labels_file a = None"
  shows "(case subject_list c a of
            Inl e \<Rightarrow> main c a = ([], Inl e)
          | Inr subjects \<Rightarrow>
              main c a = ([LogHeader, WriteSubjects subjects, OpenLabelsFile], Inl TypeError))
       \<and> snd (main c a) \<noteq> Inr ()
       \<and> (\<forall>level subject_number subject_dir.
             SubjectStart level subject_number subject_dir \<notin> set (fst (main c a)))"
  using assms
  by (auto simp add: main_def read_labels_def write_labels_def split: sum.splits)

text \<open>
  The default namespace has neither labels nor a labels file and is in binary mode.
\<close>

theorem main_without_labels_witness:
  "labels (default_args ''subjects'' [''atlas_level1.txt.gz''] ''out'') = None
   \<and> labels_file (default_args ''subjects'' [''atlas_level1.txt.gz''] ''out'') = None
   \<and> multi_structure (default_args ''subjects'' [''atlas_level1.txt.gz''] ''out'') = False
   \<and> main example_collaborators (default_args ''subjects'' [''atlas_level1.txt.gz''] ''out'')
       = ([LogHeader, WriteSubjects [''s1'', ''s2''], OpenLabelsFile], Inl TypeError)"
proof -
  let ?a = "default_args ''subjects'' [''atlas_level1.txt.gz''] ''out''"
  have l: "labels ?a = None" and f: "labels_file ?a = None" and m: "multi_structure ?a = False"
    by (simp_all add: default_args_def)
  have s: "subject_list example_collaborators ?a = Inr [''s1'', ''s2'']"
    by (simp add: subject_list_def example_collaborators_def default_args_def)
  show ?thesis using main_without_labels [OF l f, of example_collaborators] l f m s by simp
qed

subsection \<open>The small run from start to end\<close>

text \<open>
  With labels given and \<open>--save-figs\<close> set, the small run completes: main writes the
  subjects and the labels, processes both subjects at the one level, saves their
  figures and the accumulator, and closes its log. Without \<open>--save-figs\<close> it ends at the
  first subject, where \<open>nib\<close> is unbound.
\<close>

lemma example_subjects:
  "subject_list example_collaborators example_args = Inr [''s1'', ''s2'']"
  by (simp add: subject_list_def example_collaborators_def example_args_def default_args_def)

lemma example_labels:
  "read_labels example_collaborators example_args = Inr (Some [1])"
  by (simp add: read_labels_def example_args_def default_args_def)

lemma example_main:
  "main example_collaborators example_args =
     ([LogHeader, WriteSubjects [''s1'', ''s2''], OpenLabelsFile, WriteLabel 1,
       SubjectStart 0 0 ''s1'', SaveFigure 0 0 [], SubjectStart 0 1 ''s2'', SaveFigure 0 1 [],
       SaveStatistics 0 [[[Some 1, Some 0], [Some 0, Some 1]]], LogDone], Inr ())"
proof -
  have m: "mesh_collections example_args = [''atlas_level1.txt.gz'']"
    by (simp add: example_args_def default_args_def)
  show ?thesis
    by (simp add: main_def example_subjects example_labels write_labels_def m example_level)
qed

lemma example_main_without_save_figs:
  "main example_collaborators (example_args\<lparr>save_figs := False\<rparr>) =
     ([LogHeader, WriteSubjects [''s1'', ''s2''], OpenLabelsFile, WriteLabel 1,
       SubjectStart 0 0 ''s1''], Inl UnboundLocalError)"
proof -
  have m: "mesh_collections (example_args\<lparr>save_figs := False\<rparr>) = [''atlas_level1.txt.gz'']"
    by (simp add: example_args_def default_args_def)
  have s: "subject_list example_collaborators (example_args\<lparr>save_figs := False\<rparr>)
      = Inr [''s1'', ''s2'']"
    by (simp add: subject_list_def example_collaborators_def example_args_def default_args_def)
  have l: "read_labels example_collaborators (example_args\<lparr>save_figs := False\<rparr>) = Inr (Some [1])"
    by (simp add: read_labels_def example_args_def default_args_def)
  show ?thesis
    by (simp add: main_def s l write_labels_def m example_level_without_save_figs)
qed

end
